theory Spec2Isabelle
  imports Complex_Main "HOL-Library.Sublist"
begin

section \<open>Python values used by the finance tools\<close>

text \<open>
  The tools of \<^verbatim>\<open>addons/ipai_mcp_finance/tools\<close> are Python methods on Odoo models.
  Strings are modelled as \<^typ>\<open>string\<close> (ASCII), Python's unbounded integers as
  \<^typ>\<open>int\<close>, and monetary amounts (Python floats) as exact rationals: a finite float
  is a rational number, and the model abstracts from the rounding of float arithmetic
  and from the non-finite values (nan, inf).
  A raised exception is a value: the class of the exception and its message.
\<close>

datatype exn_class =
  UserError | AccessError | ValidationError | ValueError | TypeError | AttributeError

type_synonym exn = "exn_class \<times> string"

text \<open>\<^verbatim>\<open>type(e).__name__\<close>, the \<^verbatim>\<open>error_type\<close> of a failure envelope.\<close>

fun class_name :: "exn_class \<Rightarrow> string" where
  "class_name UserError = ''UserError''"
| "class_name AccessError = ''AccessError''"
| "class_name ValidationError = ''ValidationError''"
| "class_name ValueError = ''ValueError''"
| "class_name TypeError = ''TypeError''"
| "class_name AttributeError = ''AttributeError''"

subsection \<open>Strings\<close>

text \<open>
  \<^verbatim>\<open>s.upper()\<close> and \<^verbatim>\<open>s.lower()\<close> on ASCII text; \<^verbatim>\<open>sub in s\<close> is
  \<^const>\<open>sublist\<close> (a contiguous occurrence); \<^verbatim>\<open>x or ''\<close> on an optional string.
\<close>

definition upper_char :: "char \<Rightarrow> char" where
  "upper_char c =
     (case map_of (zip ''abcdefghijklmnopqrstuvwxyz'' ''ABCDEFGHIJKLMNOPQRSTUVWXYZ'') c of
        Some d \<Rightarrow> d | None \<Rightarrow> c)"

definition lower_char :: "char \<Rightarrow> char" where
  "lower_char c =
     (case map_of (zip ''ABCDEFGHIJKLMNOPQRSTUVWXYZ'' ''abcdefghijklmnopqrstuvwxyz'') c of
        Some d \<Rightarrow> d | None \<Rightarrow> c)"

definition py_upper :: "string \<Rightarrow> string" where
  "py_upper s = map upper_char s"

definition py_lower :: "string \<Rightarrow> string" where
  "py_lower s = map lower_char s"

definition or_empty :: "string option \<Rightarrow> string" where
  "or_empty s = (case s of None \<Rightarrow> [] | Some t \<Rightarrow> t)"

text \<open>Truthiness of an optional string: unset (\<^verbatim>\<open>None\<close>/\<^verbatim>\<open>False\<close>) and \<^verbatim>\<open>''\<close> are falsy.\<close>

definition truthy_str :: "string option \<Rightarrow> bool" where
  "truthy_str s = (case s of None \<Rightarrow> False | Some t \<Rightarrow> t \<noteq> [])"


subsection \<open>Integers as text\<close>

text \<open>
  Decimal digits, \<^verbatim>\<open>str(n)\<close> and the format specifications the tools use:
  \<^verbatim>\<open>{s:9s}\<close> (left-justified, space-padded, never truncated), \<^verbatim>\<open>{n:010d}\<close>
  (zero-padded after the sign) and \<^verbatim>\<open>{x:014.2f}\<close> (two decimals, zero-padded to the
  width, the decimal point counted in the width). A float is printed correctly rounded,
  ties to even on its exact value.
\<close>

definition is_digit :: "char \<Rightarrow> bool" where
  "is_digit c = (c \<in> set ''0123456789'')"

definition digit_val :: "char \<Rightarrow> int" where
  "digit_val c =
     (case map_of (zip ''0123456789'' [0, 1, 2, 3, 4, 5, 6, 7, 8, 9]) c of
        Some n \<Rightarrow> n | None \<Rightarrow> 0)"

definition digit_char :: "int \<Rightarrow> char" where
  "digit_char n = ''0123456789'' ! nat (n mod 10)"

function str_digits :: "int \<Rightarrow> string" where
  "str_digits n =
     (if n < 10 then [digit_char n] else str_digits (n div 10) @ [digit_char (n mod 10)])"
  by pat_completeness auto
termination
  by (relation "measure nat") auto

declare str_digits.simps [simp del]

definition str_int :: "int \<Rightarrow> string" where
  "str_int i = (if i < 0 then CHR ''-'' # str_digits (- i) else str_digits i)"

definition ljust :: "nat \<Rightarrow> char \<Rightarrow> string \<Rightarrow> string" where
  "ljust w c s = s @ replicate (w - length s) c"

definition rjust :: "nat \<Rightarrow> char \<Rightarrow> string \<Rightarrow> string" where
  "rjust w c s = replicate (w - length s) c @ s"

definition fmt_s :: "nat \<Rightarrow> string \<Rightarrow> string" where
  "fmt_s w s = ljust w CHR '' '' s"

definition fmt_0d :: "nat \<Rightarrow> int \<Rightarrow> string" where
  "fmt_0d w i =
     (if i < 0 then CHR ''-'' # rjust (w - 1) CHR ''0'' (str_digits (- i))
      else rjust w CHR ''0'' (str_digits i))"

definition round_half_even :: "rat \<Rightarrow> int" where
  "round_half_even x =
     (let f = \<lfloor>x\<rfloor>; d = x - of_int f in
      if d < 1 / 2 then f
      else if 1 / 2 < d then f + 1
      else if even f then f else f + 1)"

definition fixed2 :: "rat \<Rightarrow> string" where
  "fixed2 x =
     (let n = round_half_even (\<bar>x\<bar> * 100) in
      str_digits (n div 100) @ ''.'' @ [digit_char (n mod 100 div 10), digit_char (n mod 10)])"

definition fmt_2f :: "rat \<Rightarrow> string" where
  "fmt_2f x = (if x < 0 then CHR ''-'' # fixed2 x else fixed2 x)"

definition fmt_02f :: "nat \<Rightarrow> rat \<Rightarrow> string" where
  "fmt_02f w x =
     (if x < 0 then CHR ''-'' # rjust (w - 1) CHR ''0'' (fixed2 x)
      else rjust w CHR ''0'' (fixed2 x))"

text \<open>\<^verbatim>\<open>s.replace(c, '')\<close> for a single character, and \<^verbatim>\<open>sep.join(xs)\<close>.\<close>

definition remove_char :: "char \<Rightarrow> string \<Rightarrow> string" where
  "remove_char c s = filter (\<lambda>d. d \<noteq> c) s"

fun py_join :: "string \<Rightarrow> string list \<Rightarrow> string" where
  "py_join sep [] = []"
| "py_join sep [x] = x"
| "py_join sep (x # y # ys) = x @ sep @ py_join sep (y # ys)"

text \<open>
  \<^verbatim>\<open>s.split(sep)\<close> for a non-empty separator: the pieces between the occurrences of
  \<^verbatim>\<open>sep\<close>, found from the left.
\<close>

fun split_from :: "string \<Rightarrow> string \<Rightarrow> string \<Rightarrow> string list" where
  "split_from sep acc [] = [rev acc]"
| "split_from sep acc (c # cs) =
     (if sep \<noteq> [] \<and> prefix sep (c # cs)
      then rev acc # split_from sep [] (drop (length sep) (c # cs))
      else split_from sep (c # acc) cs)"

definition py_split :: "string \<Rightarrow> string \<Rightarrow> string list" where
  "py_split sep s = split_from sep [] s"

text \<open>
  \<^verbatim>\<open>int(s)\<close> on text, base ten: surrounding whitespace is stripped, one sign is
  allowed, and single underscores may stand between digits. \<^const>\<open>None\<close> is the
  \<^verbatim>\<open>ValueError\<close>.
\<close>

definition is_space :: "char \<Rightarrow> bool" where
  "is_space c = (c \<in> set [CHR '' '', CHR 0x09, CHR 0x0A, CHR 0x0B, CHR 0x0C, CHR 0x0D])"

definition py_strip :: "string \<Rightarrow> string" where
  "py_strip s = rev (dropWhile is_space (rev (dropWhile is_space s)))"

fun int_digits :: "int \<Rightarrow> string \<Rightarrow> int option" where
  "int_digits acc [] = Some acc"
| "int_digits acc (c # cs) =
     (if is_digit c then int_digits (10 * acc + digit_val c) cs
      else if c = CHR ''_'' \<and> cs \<noteq> [] \<and> is_digit (hd cs) then int_digits acc cs
      else None)"

definition int_unsigned :: "string \<Rightarrow> int option" where
  "int_unsigned s =
     (case s of [] \<Rightarrow> None | c # cs \<Rightarrow> if is_digit c then int_digits 0 s else None)"

definition py_int :: "string \<Rightarrow> int option" where
  "py_int s =
     (case py_strip s of
        [] \<Rightarrow> None
      | c # cs \<Rightarrow>
          if c = CHR ''-'' then map_option uminus (int_unsigned cs)
          else if c = CHR ''+'' then int_unsigned cs
          else int_unsigned (c # cs))"

text \<open>\<^verbatim>\<open>x or y\<close> on an optional integer: unset and 0 are falsy.\<close>

definition or_int :: "int option \<Rightarrow> int \<Rightarrow> int" where
  "or_int x y = (case x of None \<Rightarrow> y | Some i \<Rightarrow> if i = 0 then y else i)"

subsection \<open>Dates\<close>

text \<open>
  \<^verbatim>\<open>datetime.date\<close>: the constructor accepts the years 1 to 9999 and the days of the
  proleptic Gregorian calendar and raises \<^verbatim>\<open>ValueError\<close> otherwise (\<^const>\<open>None\<close>).
  Dates compare by year, month, day. \<^verbatim>\<open>calendar.monthrange(y, m)[1]\<close> is the number of
  days of the month, and \<^verbatim>\<open>str(d)\<close> is the ISO form.
\<close>

datatype date = Date (d_year: int) (d_month: int) (d_day: int)

definition date_le :: "date \<Rightarrow> date \<Rightarrow> bool" where
  "date_le a b =
     (d_year a < d_year b \<or>
      (d_year a = d_year b \<and>
        (d_month a < d_month b \<or> (d_month a = d_month b \<and> d_day a \<le> d_day b))))"

definition is_leap :: "int \<Rightarrow> bool" where
  "is_leap y = (y mod 4 = 0 \<and> (y mod 100 \<noteq> 0 \<or> y mod 400 = 0))"

definition monthrange_days :: "int \<Rightarrow> int \<Rightarrow> int" where
  "monthrange_days y m =
     (if m = 2 then (if is_leap y then 29 else 28)
      else if m = 4 \<or> m = 6 \<or> m = 9 \<or> m = 11 then 30 else 31)"

definition mk_date :: "int \<Rightarrow> int \<Rightarrow> int \<Rightarrow> date option" where
  "mk_date y m d =
     (if 1 \<le> y \<and> y \<le> 9999 \<and> 1 \<le> m \<and> m \<le> 12 \<and> 1 \<le> d \<and> d \<le> monthrange_days y m
      then Some (Date y m d) else None)"

definition iso_date :: "date \<Rightarrow> string" where
  "iso_date d = fmt_0d 4 (d_year d) @ ''-'' @ fmt_0d 2 (d_month d) @ ''-'' @ fmt_0d 2 (d_day d)"

text \<open>
  \<^verbatim>\<open>datetime.strptime(s, '%Y-%m-%d').date()\<close>: four digits, a month written
  \<^verbatim>\<open>1\<close> to \<^verbatim>\<open>12\<close> or \<^verbatim>\<open>01\<close> to \<^verbatim>\<open>09\<close>, a day written likewise up to 31 (or as
  a space and one digit), and nothing else; the date must exist.
\<close>

definition month_field :: "string \<Rightarrow> int option" where
  "month_field s =
     (if (length s = 1 \<or> length s = 2) \<and> list_all is_digit s
      then (case int_digits 0 s of
              Some m \<Rightarrow> if 1 \<le> m \<and> m \<le> 12 then Some m else None
            | None \<Rightarrow> None)
      else None)"

definition day_field :: "string \<Rightarrow> int option" where
  "day_field s =
     (if (length s = 1 \<or> length s = 2) \<and> list_all is_digit s
      then (case int_digits 0 s of
              Some d \<Rightarrow> if 1 \<le> d \<and> d \<le> 31 then Some d else None
            | None \<Rightarrow> None)
      else (case s of
              [sp, c] \<Rightarrow> if sp = CHR '' '' \<and> is_digit c \<and> c \<noteq> CHR ''0''
                          then Some (digit_val c) else None
            | _ \<Rightarrow> None))"

definition strptime_ymd :: "string \<Rightarrow> date option" where
  "strptime_ymd s =
     (case py_split ''-'' s of
        [ys, ms, ds] \<Rightarrow>
          (if length ys = 4 \<and> list_all is_digit ys
           then (case (int_digits 0 ys, month_field ms, day_field ds) of
                   (Some y, Some m, Some d) \<Rightarrow> mk_date y m d
                 | _ \<Rightarrow> None)
           else None)
      | _ \<Rightarrow> None)"

text \<open>
  A date parameter of a tool: text, or a date object (\<^verbatim>\<open>_parse_date\<close> accepts both).
\<close>

datatype date_in = DateStr string | DateObj date

text \<open>
  \<^verbatim>\<open>_parse_date(self, date_str)\<close>, the same method in \<^verbatim>\<open>journal_entry.py\<close> (lines
  197-206) and \<^verbatim>\<open>trial_balance.py\<close> (lines 142-151).
\<close>

definition parse_date :: "date_in option \<Rightarrow> exn + date option" where
  "parse_date date_str =
     (case date_str of
        None \<Rightarrow> Inr None
      | Some (DateObj d) \<Rightarrow> Inr (Some d)
      | Some (DateStr s) \<Rightarrow>
          if s = [] then Inr None
          else (case strptime_ymd s of
                  Some d \<Rightarrow> Inr (Some d)
                | None \<Rightarrow> Inl (UserError, ''Invalid date format: '' @ s @ ''. Use YYYY-MM-DD'')))"

section \<open>The Odoo store, as the tools read and write it\<close>

text \<open>
  The records of the ORM that the tools consult, each with the fields the tools read.
  An unset text or date field (\<^verbatim>\<open>False\<close> in Odoo) is \<^const>\<open>None\<close>. Searches return
  the records in the order of the store.
\<close>

record company =
  c_id :: int
  c_name :: string
  c_vat :: "string option"
  c_currency :: string
  fiscalyear_lock_date :: "date option"
  period_lock_date :: "date option"

text \<open>
  \<^verbatim>\<open>mcp.finance.config\<close> (\<^verbatim>\<open>models/mcp_finance_config.py\<close>), with the defaults of
  its fields. The help of \<^verbatim>\<open>max_je_amount\<close> reads: JE amounts above this require
  escalated approval (0 = always require).
\<close>

record finance_config =
  cfg_company_id :: int
  enable_trial_balance :: bool
  enable_journal_entry :: bool
  enable_month_end :: bool
  enable_bir_tools :: bool
  enable_aging_report :: bool
  require_approval_je :: bool
  max_je_amount :: rat
  log_all_queries :: bool

definition default_config :: "int \<Rightarrow> finance_config" where
  "default_config cid =
     \<lparr>cfg_company_id = cid, enable_trial_balance = True, enable_journal_entry = False,
      enable_month_end = False, enable_bir_tools = True, enable_aging_report = True,
      require_approval_je = True, max_je_amount = 0, log_all_queries = True\<rparr>"

record journal =
  j_id :: int
  j_code :: string
  j_name :: string
  j_company_id :: int

record account =
  a_id :: int
  a_code :: string
  a_name :: string
  a_company_ids :: "int list"
  a_account_type :: string
  a_internal_group :: string
  a_group :: "(int \<times> string) option"

record partner =
  p_id :: int
  p_ref :: "string option"
  p_name :: "string option"
  p_vat :: "string option"
  p_street :: "string option"
  p_street2 :: "string option"
  p_city :: "string option"
  p_state_name :: "string option"
  p_zip :: "string option"

text \<open>
  The tax descriptor (\<^verbatim>\<open>account.tax\<close>) as far as \<^verbatim>\<open>bir_compliance.py\<close> reads it:
  \<^verbatim>\<open>tax.name\<close>, \<^verbatim>\<open>tax.description\<close> and \<^verbatim>\<open>tax.amount\<close> (the rate in percent).
\<close>

record tax =
  t_name :: "string option"
  t_description :: "string option"
  t_amount :: rat

text \<open>
  \<^verbatim>\<open>account.move.line\<close> and \<^verbatim>\<open>account.move\<close>: journal entries and vendor bills
  alike. \<^verbatim>\<open>l_tax_line_id\<close> is the tax a tax line was generated for, \<^verbatim>\<open>m_partner\<close>
  the partner of the move.
\<close>

record move_line =
  l_account_id :: int
  l_name :: string
  l_debit :: rat
  l_credit :: rat
  l_balance :: rat
  l_date :: date
  l_company_id :: int
  l_parent_state :: string
  l_partner_id :: "int option"
  l_analytic_distribution :: "(string \<times> rat) list option"
  l_tax_line_id :: "tax option"

record move =
  m_id :: int
  m_name :: string
  m_company_id :: int
  m_journal_id :: int
  m_date :: date
  m_ref :: string
  m_move_type :: string
  m_state :: string
  m_invoice_date :: "date option"
  m_partner :: "partner option"
  m_line_ids :: "move_line list"

text \<open>\<^verbatim>\<open>mcp.finance.tool\<close>, the registry of tools (\<^verbatim>\<open>models/mcp_finance_tool.py\<close>).\<close>

record finance_tool =
  tool_id :: int
  tool_technical_name :: string

subsection \<open>Tool parameters and results\<close>

text \<open>
  The parameters of a tool call are a dict; the model types it by the tool's
  \<^verbatim>\<open>inputSchema\<close> (\<^verbatim>\<open>get_tool_schema\<close>). A key that is absent (or null) is
  \<^const>\<open>None\<close>. A date may also be given as a date object.
\<close>

datatype account_ref = AccountId int | AccountCode string

datatype partner_ref = PartnerId int | PartnerRef string

datatype analytic_in = AnalyticDict "(string \<times> rat) list" | AnalyticId int

record je_line_in =
  in_account :: "account_ref option"
  in_debit :: "rat option"
  in_credit :: "rat option"
  in_name :: "string option"
  in_label :: "string option"
  in_partner :: "partner_ref option"
  in_analytic :: "analytic_in option"

record je_params =
  jp_company_id :: "int option"
  jp_journal_code :: "string option"
  jp_date :: "date_in option"
  jp_ref :: "string option"
  jp_lines :: "je_line_in list option"
  jp_auto_post :: "bool option"

record tb_params =
  tb_company_id :: "int option"
  tb_date_from :: "date_in option"
  tb_date_to :: "date_in option"
  tb_hierarchy :: "bool option"
  tb_account_types :: "string list option"
  tb_include_zero :: "bool option"

record bir_params =
  b_company_id :: "int option"
  b_period :: "string option"
  b_vendor_ids :: "int list option"
  b_output_format :: "string option"

datatype tool_params =
  JournalEntryParams je_params | TrialBalanceParams tb_params | BirParams bir_params

text \<open>\<^verbatim>\<open>params.get('company_id')\<close>.\<close>

fun params_company_id :: "tool_params \<Rightarrow> int option" where
  "params_company_id (JournalEntryParams p) = jp_company_id p"
| "params_company_id (TrialBalanceParams p) = tb_company_id p"
| "params_company_id (BirParams p) = b_company_id p"

text \<open>The dict has no key at all: it is falsy (\<^verbatim>\<open>if parameters\<close>).\<close>

fun params_empty :: "tool_params \<Rightarrow> bool" where
  "params_empty (JournalEntryParams p) =
     (jp_company_id p = None \<and> jp_journal_code p = None \<and> jp_date p = None \<and> jp_ref p = None
      \<and> jp_lines p = None \<and> jp_auto_post p = None)"
| "params_empty (TrialBalanceParams p) =
     (tb_company_id p = None \<and> tb_date_from p = None \<and> tb_date_to p = None
      \<and> tb_hierarchy p = None \<and> tb_account_types p = None \<and> tb_include_zero p = None)"
| "params_empty (BirParams p) =
     (b_company_id p = None \<and> b_period p = None \<and> b_vendor_ids p = None
      \<and> b_output_format p = None)"

text \<open>
  \<^verbatim>\<open>json.dumps(parameters)\<close> raises \<^verbatim>\<open>TypeError\<close> on a date object; every other
  value of the schema is JSON.
\<close>

fun is_date_object :: "date_in option \<Rightarrow> bool" where
  "is_date_object (Some (DateObj d)) = True"
| "is_date_object _ = False"

fun json_serializable :: "tool_params \<Rightarrow> bool" where
  "json_serializable (JournalEntryParams p) = (\<not> is_date_object (jp_date p))"
| "json_serializable (TrialBalanceParams p) =
     (\<not> is_date_object (tb_date_from p) \<and> \<not> is_date_object (tb_date_to p))"
| "json_serializable (BirParams p) = True"

text \<open>The summaries the tools log as \<^verbatim>\<open>result\<close>.\<close>

datatype tool_result =
  JournalEntryResult int string rat
| TrialBalanceResult nat
| BirResult nat rat rat

subsection \<open>The audit log\<close>

datatype exec_state = Pending | Approved | Executed | Rejected | Failed

text \<open>\<^verbatim>\<open>mcp.finance.tool.execution\<close>, one record per logged execution.\<close>

record execution =
  ex_tool_id :: int
  ex_company_id :: int
  ex_user_id :: int
  ex_parameters :: "tool_params option"
  ex_result :: "tool_result option"
  ex_error_message :: "string option"
  ex_execution_time_ms :: int
  ex_state :: exec_state

subsection \<open>The environment\<close>

text \<open>
  \<^verbatim>\<open>self.env\<close>: the store, the current company and user, whether the user is in the
  group \<^verbatim>\<open>account.group_account_manager\<close>, and the readings the tools take from outside:
  the elapsed time \<^verbatim>\<open>int((time.time() - start_time) * 1000)\<close>, \<^verbatim>\<open>date.today()\<close>, and
  whether \<^verbatim>\<open>xlsxwriter\<close> can be imported.
\<close>

record env =
  companies :: "company list"
  configs :: "finance_config list"
  journals :: "journal list"
  accounts :: "account list"
  partners :: "partner list"
  moves :: "move list"
  tools :: "finance_tool list"
  executions :: "execution list"
  env_company :: int
  env_user :: int
  user_is_account_manager :: bool
  elapsed_ms :: int
  today :: date
  xlsxwriter_installed :: bool

text \<open>\<^verbatim>\<open>self.env['res.company'].browse(company_id)\<close>, \<^const>\<open>None\<close> when it does not exist.\<close>

definition browse_company :: "env \<Rightarrow> int \<Rightarrow> company option" where
  "browse_company e cid = find (\<lambda>c. c_id c = cid) (companies e)"

text \<open>
  \<^verbatim>\<open>get_config(self, company_id=None)\<close>, \<^verbatim>\<open>mcp_finance_config.py\<close> lines 86-94: the
  company's configuration, created with the defaults when there is none.
\<close>

definition get_config :: "env \<Rightarrow> int option \<Rightarrow> finance_config \<times> env" where
  "get_config e company_id =
     (let cid = or_int company_id (env_company e) in
      case find (\<lambda>c. cfg_company_id c = cid) (configs e) of
        Some config \<Rightarrow> (config, e)
      | None \<Rightarrow> (default_config cid, e\<lparr>configs := configs e @ [default_config cid]\<rparr>))"

text \<open>
  \<^verbatim>\<open>log_execution(self, tool_name, company_id, parameters, result=None, error=None,
  execution_time_ms=0, state='executed')\<close>, \<^verbatim>\<open>mcp_finance_tool.py\<close> lines 123-142.
  It returns the record it created, or \<^verbatim>\<open>None\<close> for an unknown tool; serialising the
  parameters can raise.
\<close>

definition log_execution ::
  "env \<Rightarrow> string \<Rightarrow> int \<Rightarrow> tool_params \<Rightarrow> tool_result option \<Rightarrow> string option \<Rightarrow> int
     \<Rightarrow> exec_state \<Rightarrow> exn + (execution option \<times> env)" where
  "log_execution e tool_name company_id parameters result error execution_time_ms st =
     (case find (\<lambda>t. tool_technical_name t = tool_name) (tools e) of
        None \<Rightarrow> Inr (None, e)
      | Some tool \<Rightarrow>
          if \<not> params_empty parameters \<and> \<not> json_serializable parameters
          then Inl (TypeError, ''Object of type date is not JSON serializable'')
          else
            (let created =
               \<lparr>ex_tool_id = tool_id tool,
                ex_company_id = company_id,
                ex_user_id = env_user e,
                ex_parameters = (if params_empty parameters then None else Some parameters),
                ex_result = result,
                ex_error_message = error,
                ex_execution_time_ms = execution_time_ms,
                ex_state = (if truthy_str error then Failed else st)\<rparr>
             in Inr (Some created, e\<lparr>executions := executions e @ [created]\<rparr>)))"

text \<open>The result envelope of a tool: the success data, or the error and its type.\<close>

datatype 'a envelope = Success 'a | Failure string string

text \<open>
  The \<^verbatim>\<open>except Exception\<close> block of each tool's \<^verbatim>\<open>execute\<close>
  (\<^verbatim>\<open>journal_entry.py\<close> lines 179-195, \<^verbatim>\<open>bir_compliance.py\<close> lines 147-163,
  \<^verbatim>\<open>trial_balance.py\<close> lines 123-140), which differ in the tool's name only: log the
  failure, then return the failure envelope. An exception raised here leaves
  \<^verbatim>\<open>execute\<close> (\<^const>\<open>Inl\<close>).
\<close>

definition except_block ::
  "string \<Rightarrow> env \<Rightarrow> tool_params \<Rightarrow> exn \<Rightarrow> exn + ('a envelope \<times> env)" where
  "except_block tool_name e params ex =
     (case log_execution e tool_name (or_int (params_company_id params) (env_company e))
             params None (Some (snd ex)) (elapsed_ms e) Executed of
        Inl raised \<Rightarrow> Inl raised
      | Inr (logged, e') \<Rightarrow> Inr (Failure (snd ex) (class_name (fst ex)), e'))"

section \<open>The journal entry tool\<close>

text \<open>
  \<^verbatim>\<open>tools/journal_entry.py\<close>. \<^verbatim>\<open>BALANCE_TOLERANCE = 0.01\<close>.
\<close>

definition BALANCE_TOLERANCE :: rat where
  "BALANCE_TOLERANCE = 1 / 100"

text \<open>\<^verbatim>\<open>f"{d}"\<close> of a date field that may be unset.\<close>

definition str_date_field :: "date option \<Rightarrow> string" where
  "str_date_field d = (case d of None \<Rightarrow> ''False'' | Some x \<Rightarrow> iso_date x)"

text \<open>\<^verbatim>\<open>lock and je_date <= lock\<close>.\<close>

definition on_or_before :: "date \<Rightarrow> date option \<Rightarrow> bool" where
  "on_or_before d lock = (case lock of None \<Rightarrow> False | Some l \<Rightarrow> date_le d l)"

text \<open>\<^verbatim>\<open>_check_period_lock(self, company_id, je_date)\<close>, lines 208-223.\<close>

definition check_period_lock :: "env \<Rightarrow> int \<Rightarrow> date \<Rightarrow> exn + unit" where
  "check_period_lock e company_id je_date =
     (case browse_company e company_id of
        None \<Rightarrow> Inr ()
      | Some company \<Rightarrow>
          if on_or_before je_date (fiscalyear_lock_date company)
          then Inl (UserError, ''Period is locked. Fiscal year lock date: ''
                      @ str_date_field (fiscalyear_lock_date company))
          else if on_or_before je_date (period_lock_date company)
                  \<and> \<not> user_is_account_manager e
          then Inl (UserError, ''Period is locked for non-advisers. Lock date: ''
                      @ str_date_field (period_lock_date company))
          else Inr ())"

text \<open>The values of one line of the move to create (\<^verbatim>\<open>move_line\<close> in the source).\<close>

record move_line_vals =
  v_account_id :: int
  v_name :: string
  v_debit :: rat
  v_credit :: rat
  v_partner_id :: "int option"
  v_analytic_distribution :: "(string \<times> rat) list option"

fun truthy_account_ref :: "account_ref option \<Rightarrow> bool" where
  "truthy_account_ref None = False"
| "truthy_account_ref (Some (AccountId i)) = (i \<noteq> 0)"
| "truthy_account_ref (Some (AccountCode c)) = (c \<noteq> [])"

fun str_account_ref :: "account_ref option \<Rightarrow> string" where
  "str_account_ref None = ''None''"
| "str_account_ref (Some (AccountId i)) = str_int i"
| "str_account_ref (Some (AccountCode c)) = c"

text \<open>
  An account is browsed by its id, or searched by its code among the accounts of the
  company.
\<close>

fun find_account :: "env \<Rightarrow> int \<Rightarrow> account_ref option \<Rightarrow> account option" where
  "find_account e company_id None = None"
| "find_account e company_id (Some (AccountId i)) = find (\<lambda>a. a_id a = i) (accounts e)"
| "find_account e company_id (Some (AccountCode c)) =
     find (\<lambda>a. a_code a = c \<and> company_id \<in> set (a_company_ids a)) (accounts e)"

text \<open>
  The optional partner: by id, or the first partner whose reference is the text or whose
  name contains it (\<^verbatim>\<open>ilike\<close>); a partner that is not found is left out.
\<close>

fun find_partner :: "env \<Rightarrow> partner_ref option \<Rightarrow> partner option" where
  "find_partner e None = None"
| "find_partner e (Some (PartnerId i)) =
     (if i = 0 then None else find (\<lambda>p. p_id p = i) (partners e))"
| "find_partner e (Some (PartnerRef r)) =
     (if r = [] then None
      else find (\<lambda>p. p_ref p = Some r \<or> sublist (py_lower r) (py_lower (or_empty (p_name p))))
             (partners e))"

fun analytic_distribution :: "analytic_in option \<Rightarrow> (string \<times> rat) list option" where
  "analytic_distribution None = None"
| "analytic_distribution (Some (AnalyticDict d)) = (if d = [] then None else Some d)"
| "analytic_distribution (Some (AnalyticId i)) =
     (if i = 0 then None else Some [(str_int i, 100)])"

definition amount_or_0 :: "rat option \<Rightarrow> rat" where
  "amount_or_0 x = (case x of None \<Rightarrow> 0 | Some a \<Rightarrow> a)"

definition line_no :: "nat \<Rightarrow> string" where
  "line_no i = ''Line '' @ str_int (int i + 1) @ '': ''"

text \<open>
  The body of the loop of \<^verbatim>\<open>_build_move_lines\<close> (lines 232-295) for the line at
  index \<^verbatim>\<open>i\<close>.
\<close>

definition build_move_line :: "env \<Rightarrow> int \<Rightarrow> nat \<Rightarrow> je_line_in \<Rightarrow> exn + move_line_vals" where
  "build_move_line e company_id i line =
     (let account_ref = in_account line in
      if \<not> truthy_account_ref account_ref
      then Inl (UserError, line_no i @ ''account is required'')
      else
        (case find_account e company_id account_ref of
           None \<Rightarrow>
             Inl (UserError, line_no i @ ''account not found: '' @ str_account_ref account_ref)
         | Some account \<Rightarrow>
             (let debit = amount_or_0 (in_debit line);
                  credit = amount_or_0 (in_credit line)
              in
                if debit < 0 \<or> credit < 0
                then Inl (UserError, line_no i @ ''debit and credit must be non-negative'')
                else if 0 < debit \<and> 0 < credit
                then Inl (UserError,
                       line_no i @ ''cannot have both debit and credit on same line'')
                else if debit = 0 \<and> credit = 0
                then Inl (UserError, line_no i @ ''must have either debit or credit amount'')
                else
                  Inr \<lparr>v_account_id = a_id account,
                       v_name = (if truthy_str (in_name line) then or_empty (in_name line)
                                 else if truthy_str (in_label line) then or_empty (in_label line)
                                 else ''/''),
                       v_debit = debit,
                       v_credit = credit,
                       v_partner_id = map_option p_id (find_partner e (in_partner line)),
                       v_analytic_distribution = analytic_distribution (in_analytic line)\<rparr>)))"

text \<open>
  \<^verbatim>\<open>_build_move_lines(self, lines, company_id)\<close>, lines 225-297: the lines in order,
  from index \<^verbatim>\<open>i\<close>; the first line that raises ends the loop.
\<close>

fun build_move_lines_from ::
  "env \<Rightarrow> int \<Rightarrow> nat \<Rightarrow> je_line_in list \<Rightarrow> exn + move_line_vals list" where
  "build_move_lines_from e company_id i [] = Inr []"
| "build_move_lines_from e company_id i (line # rest) =
     (case build_move_line e company_id i line of
        Inl ex \<Rightarrow> Inl ex
      | Inr v \<Rightarrow>
          (case build_move_lines_from e company_id (Suc i) rest of
             Inl ex \<Rightarrow> Inl ex
           | Inr vs \<Rightarrow> Inr (v # vs)))"

definition build_move_lines :: "env \<Rightarrow> je_line_in list \<Rightarrow> int \<Rightarrow> exn + move_line_vals list" where
  "build_move_lines e lines company_id = build_move_lines_from e company_id 0 lines"

text \<open>\<^verbatim>\<open>_validate_balance(self, move_lines)\<close>, lines 299-310.\<close>

definition validate_balance :: "move_line_vals list \<Rightarrow> exn + unit" where
  "validate_balance move_lines =
     (let total_debit = sum_list (map v_debit move_lines);
          total_credit = sum_list (map v_credit move_lines);
          diff = \<bar>total_debit - total_credit\<bar>
      in
        if BALANCE_TOLERANCE < diff
        then Inl (ValidationError,
               ''Journal entry is not balanced. Total debit: '' @ fmt_2f total_debit
               @ '', Total credit: '' @ fmt_2f total_credit
               @ '', Difference: '' @ fmt_2f diff)
        else Inr ())"

text \<open>
  Lines 120-125 of \<^verbatim>\<open>execute\<close>: whether the entry requires approval, from the
  configuration and the total debit.
\<close>

definition approval_required :: "finance_config \<Rightarrow> rat \<Rightarrow> bool" where
  "approval_required config total_amount =
     (let requires_approval = False;
          requires_approval = (if require_approval_je config then True else requires_approval);
          requires_approval =
            (if 0 < max_je_amount config \<and> max_je_amount config < total_amount
             then True else requires_approval)
      in requires_approval)"

text \<open>
  \<^verbatim>\<open>account.move.create\<close> and \<^verbatim>\<open>action_post\<close> belong to Odoo; the model keeps what
  the tool reads back: the new move is stored in state \<^verbatim>\<open>draft\<close> under a fresh id,
  and posting sets its state to \<^verbatim>\<open>posted\<close>.
\<close>

definition fresh_id :: "int list \<Rightarrow> int" where
  "fresh_id ids = fold max ids 0 + 1"

definition line_of_vals :: "int \<Rightarrow> date \<Rightarrow> move_line_vals \<Rightarrow> move_line" where
  "line_of_vals company_id je_date v =
     \<lparr>l_account_id = v_account_id v, l_name = v_name v, l_debit = v_debit v,
      l_credit = v_credit v, l_balance = v_debit v - v_credit v, l_date = je_date,
      l_company_id = company_id, l_parent_state = ''draft'',
      l_partner_id = v_partner_id v,
      l_analytic_distribution = v_analytic_distribution v, l_tax_line_id = None\<rparr>"

definition create_move ::
  "env \<Rightarrow> int \<Rightarrow> int \<Rightarrow> date \<Rightarrow> string \<Rightarrow> move_line_vals list \<Rightarrow> move \<times> env" where
  "create_move e company_id journal_id je_date ref move_lines =
     (let created =
        \<lparr>m_id = fresh_id (map m_id (moves e)), m_name = ''/'', m_company_id = company_id,
         m_journal_id = journal_id, m_date = je_date, m_ref = ref, m_move_type = ''entry'',
         m_state = ''draft'', m_invoice_date = None, m_partner = None,
         m_line_ids = map (line_of_vals company_id je_date) move_lines\<rparr>
      in (created, e\<lparr>moves := moves e @ [created]\<rparr>))"

definition action_post :: "env \<Rightarrow> move \<Rightarrow> move \<times> env" where
  "action_post e mv =
     (let posted =
        mv\<lparr>m_state := ''posted'',
           m_line_ids := map (\<lambda>l. l\<lparr>l_parent_state := ''posted''\<rparr>) (m_line_ids mv)\<rparr>
      in (posted, e\<lparr>moves := map (\<lambda>m. if m_id m = m_id mv then posted else m) (moves e)\<rparr>))"

text \<open>The data of the success envelope of \<^verbatim>\<open>execute\<close> (lines 164-177).\<close>

record je_success =
  r_move_id :: int
  r_move_name :: string
  r_state :: string
  r_requires_approval :: bool
  r_total_amount :: rat
  r_company :: string
  r_journal :: string
  r_line_count :: nat
  r_execution_time_ms :: int

text \<open>
  Lines 76-115 of \<^verbatim>\<open>execute\<close>, after the company and its configuration are known:
  the checks, in the order of the source, up to the balance check. None of them
  writes to the store.
\<close>

definition je_checks ::
  "env \<Rightarrow> je_params \<Rightarrow> int \<Rightarrow> finance_config
     \<Rightarrow> exn + (journal \<times> date \<times> string \<times> move_line_vals list \<times> bool)" where
  "je_checks e params company_id config =
     (if \<not> enable_journal_entry config
      then Inl (AccessError, ''Journal Entry tool is disabled for this company'')
      else if \<not> truthy_str (jp_journal_code params)
      then Inl (UserError, ''journal_code is required'')
      else
        (case parse_date (jp_date params) of
           Inl ex \<Rightarrow> Inl ex
         | Inr None \<Rightarrow> Inl (UserError, ''date is required (YYYY-MM-DD)'')
         | Inr (Some je_date) \<Rightarrow>
             if \<not> truthy_str (jp_ref params)
             then Inl (UserError, ''ref (reference/memo) is required'')
             else
               (case jp_lines params of
                  None \<Rightarrow> Inl (UserError, ''lines is required and must be a list'')
                | Some lines \<Rightarrow>
                    if lines = []
                    then Inl (UserError, ''lines is required and must be a list'')
                    else
                      (let auto_post = (case jp_auto_post params of None \<Rightarrow> False | Some b \<Rightarrow> b)
                       in
                         case check_period_lock e company_id je_date of
                           Inl ex \<Rightarrow> Inl ex
                         | Inr u \<Rightarrow>
                             (case find (\<lambda>j. j_code j = or_empty (jp_journal_code params)
                                              \<and> j_company_id j = company_id) (journals e) of
                                None \<Rightarrow>
                                  Inl (UserError,
                                    ''Journal not found: '' @ or_empty (jp_journal_code params))
                              | Some journal \<Rightarrow>
                                  (case build_move_lines e lines company_id of
                                     Inl ex \<Rightarrow> Inl ex
                                   | Inr move_lines \<Rightarrow>
                                       (case validate_balance move_lines of
                                          Inl ex \<Rightarrow> Inl ex
                                        | Inr u' \<Rightarrow>
                                            Inr (journal, je_date, or_empty (jp_ref params),
                                                 move_lines, auto_post))))))))"

text \<open>
  The \<^verbatim>\<open>try\<close> block of \<^verbatim>\<open>execute\<close> (lines 69-177): the exception raised or the
  success data, and the store as the block leaves it.
\<close>

definition je_execute_try :: "env \<Rightarrow> je_params \<Rightarrow> (exn + je_success) \<times> env" where
  "je_execute_try e params =
     (let company_id = or_int (jp_company_id params) (env_company e) in
      case browse_company e company_id of
        None \<Rightarrow> (Inl (UserError, ''Company not found: '' @ str_int company_id), e)
      | Some company \<Rightarrow>
          (let (config, e1) = get_config e (Some company_id) in
           case je_checks e1 params company_id config of
             Inl ex \<Rightarrow> (Inl ex, e1)
           | Inr (journal, je_date, ref, move_lines, auto_post0) \<Rightarrow>
               (let total_amount = sum_list (map v_debit move_lines);
                    requires_approval = approval_required config total_amount;
                    auto_post = (if requires_approval then False else auto_post0);
                    (created, e2) =
                       create_move e1 company_id (j_id journal) je_date ref move_lines;
                    (mv, e3) = (if auto_post \<and> \<not> requires_approval
                                then action_post e2 created else (created, e2));
                    execution_time = elapsed_ms e3;
                    st = (if requires_approval then Pending else Executed)
                in
                  case log_execution e3 ''create_journal_entry'' company_id
                         (JournalEntryParams params)
                         (Some (JournalEntryResult (m_id mv) (m_name mv) total_amount))
                         None execution_time st of
                    Inl ex \<Rightarrow> (Inl ex, e3)
                  | Inr (logged, e4) \<Rightarrow>
                      (Inr \<lparr>r_move_id = m_id mv, r_move_name = m_name mv,
                            r_state = m_state mv, r_requires_approval = requires_approval,
                            r_total_amount = total_amount, r_company = c_name company,
                            r_journal = j_name journal, r_line_count = length move_lines,
                            r_execution_time_ms = execution_time\<rparr>, e4))))"

text \<open>
  \<^verbatim>\<open>execute(self, params)\<close>, lines 45-195. \<^const>\<open>Inr\<close> is the envelope returned (with
  the store after the call), \<^const>\<open>Inl\<close> an exception that leaves \<^verbatim>\<open>execute\<close>.
\<close>

definition je_execute :: "env \<Rightarrow> je_params \<Rightarrow> exn + (je_success envelope \<times> env)" where
  "je_execute e params =
     (case je_execute_try e params of
        (Inr ok, e') \<Rightarrow> Inr (Success ok, e')
      | (Inl ex, e') \<Rightarrow> except_block ''create_journal_entry'' e' (JournalEntryParams params) ex)"

text \<open>The configuration that \<^verbatim>\<open>execute\<close> reads for a call (line 77).\<close>

definition je_config :: "env \<Rightarrow> je_params \<Rightarrow> finance_config" where
  "je_config s p = fst (get_config s (Some (or_int (jp_company_id p) (env_company s))))"

section \<open>The trial balance tool\<close>

text \<open>\<^verbatim>\<open>tools/trial_balance.py\<close>. The three amounts of a row, and of the totals.\<close>

record amounts =
  am_debit :: rat
  am_credit :: rat
  am_balance :: rat

definition zero_amounts :: amounts where
  "zero_amounts = \<lparr>am_debit = 0, am_credit = 0, am_balance = 0\<rparr>"

text \<open>
  The SQL query of \<^verbatim>\<open>_get_trial_balance\<close> (lines 171-194): the lines of the company
  in the date range whose move is posted, grouped by account. An account with no such
  line has no entry in \<^verbatim>\<open>totals_by_account\<close>.
\<close>

definition posted_lines :: "env \<Rightarrow> int \<Rightarrow> date \<Rightarrow> date \<Rightarrow> move_line list" where
  "posted_lines e company_id date_from date_to =
     concat (map (\<lambda>m. if m_state m = ''posted''
                       then filter (\<lambda>l. l_company_id l = company_id
                                         \<and> date_le date_from (l_date l)
                                         \<and> date_le (l_date l) date_to
                                         \<and> l_parent_state l = ''posted'') (m_line_ids m)
                       else [])
               (moves e))"

definition totals_by_account :: "env \<Rightarrow> int \<Rightarrow> date \<Rightarrow> date \<Rightarrow> int \<Rightarrow> amounts option" where
  "totals_by_account e company_id date_from date_to account_id =
     (let ls = filter (\<lambda>l. l_account_id l = account_id)
                 (posted_lines e company_id date_from date_to)
      in if ls = [] then None
         else Some \<lparr>am_debit = sum_list (map l_debit ls),
                    am_credit = sum_list (map l_credit ls),
                    am_balance = sum_list (map l_balance ls)\<rparr>)"

text \<open>
  The amounts joined onto an account: \<^verbatim>\<open>totals_by_account.get(account.id, {...})\<close>,
  zero for an account with no posted line in the range.
\<close>

definition account_amounts :: "env \<Rightarrow> int \<Rightarrow> date \<Rightarrow> date \<Rightarrow> account \<Rightarrow> amounts" where
  "account_amounts e company_id date_from date_to acc =
     (case totals_by_account e company_id date_from date_to (a_id acc) of
        None \<Rightarrow> zero_amounts | Some a \<Rightarrow> a)"

record hierarchy_info =
  h_group_id :: "int option"
  h_group_name :: "string option"
  h_level :: nat

record tb_row =
  row_account_id :: int
  row_code :: string
  row_name :: string
  row_account_type :: string
  row_internal_group :: string
  row_debit :: rat
  row_credit :: rat
  row_balance :: rat
  row_hierarchy :: "hierarchy_info option"

text \<open>Lines 209-224: the row of an account, with the hierarchy fields when asked for.\<close>

definition make_row :: "account \<Rightarrow> amounts \<Rightarrow> bool \<Rightarrow> tb_row" where
  "make_row acc amts hierarchy =
     \<lparr>row_account_id = a_id acc, row_code = a_code acc, row_name = a_name acc,
      row_account_type = a_account_type acc, row_internal_group = a_internal_group acc,
      row_debit = am_debit amts, row_credit = am_credit amts, row_balance = am_balance amts,
      row_hierarchy =
        (if hierarchy
         then Some \<lparr>h_group_id = map_option fst (a_group acc),
                    h_group_name = map_option snd (a_group acc),
                    h_level = (if CHR ''.'' \<in> set (a_code acc)
                               then length (py_split ''.'' (a_code acc)) else 1)\<rparr>
         else None)\<rparr>"

text \<open>
  The loop of lines 200-230 over the accounts, with the rows and the totals built so
  far: an account whose balance is zero is skipped unless \<^verbatim>\<open>include_zero\<close>.
\<close>

fun tb_loop ::
  "(int \<Rightarrow> amounts option) \<Rightarrow> bool \<Rightarrow> bool \<Rightarrow> account list \<Rightarrow> tb_row list \<times> amounts
     \<Rightarrow> tb_row list \<times> amounts" where
  "tb_loop by_account hierarchy include_zero [] (rows, totals) = (rows, totals)"
| "tb_loop by_account hierarchy include_zero (acc # rest) (rows, totals) =
     (let amts = (case by_account (a_id acc) of None \<Rightarrow> zero_amounts | Some a \<Rightarrow> a) in
      if \<not> include_zero \<and> am_balance amts = 0
      then tb_loop by_account hierarchy include_zero rest (rows, totals)
      else tb_loop by_account hierarchy include_zero rest
             (rows @ [make_row acc amts hierarchy],
              \<lparr>am_debit = am_debit totals + am_debit amts,
               am_credit = am_credit totals + am_credit amts,
               am_balance = am_balance totals + am_balance amts\<rparr>))"

record tb_result =
  tb_accounts :: "tb_row list"
  tb_totals :: amounts
  tb_currency :: "string option"

text \<open>
  \<^verbatim>\<open>_get_trial_balance(self, company_id, date_from, date_to, hierarchy, account_types,
  include_zero)\<close>, lines 153-236.
\<close>

definition get_trial_balance ::
  "env \<Rightarrow> int \<Rightarrow> date \<Rightarrow> date \<Rightarrow> bool \<Rightarrow> string list \<Rightarrow> bool \<Rightarrow> tb_result" where
  "get_trial_balance e company_id date_from date_to hierarchy account_types include_zero =
     (let accs = filter (\<lambda>a. company_id \<in> set (a_company_ids a)
                             \<and> (account_types = [] \<or> a_account_type a \<in> set account_types))
                   (accounts e);
          (rows, totals) =
             tb_loop (totals_by_account e company_id date_from date_to) hierarchy include_zero
               accs ([], zero_amounts)
      in \<lparr>tb_accounts = rows, tb_totals = totals,
          tb_currency = map_option c_currency (browse_company e (env_company e))\<rparr>)"

record tb_success =
  ts_data :: tb_result
  ts_company :: string
  ts_date_from :: string
  ts_date_to :: string
  ts_account_count :: nat
  ts_execution_time_ms :: int

text \<open>The \<^verbatim>\<open>try\<close> block of \<^verbatim>\<open>execute\<close>, lines 60-121.\<close>

definition tb_execute_try :: "env \<Rightarrow> tb_params \<Rightarrow> (exn + tb_success) \<times> env" where
  "tb_execute_try e params =
     (let company_id = or_int (tb_company_id params) (env_company e) in
      case browse_company e company_id of
        None \<Rightarrow> (Inl (UserError, ''Company not found: '' @ str_int company_id), e)
      | Some company \<Rightarrow>
          (let (config, e1) = get_config e (Some company_id) in
           if \<not> enable_trial_balance config
           then (Inl (AccessError, ''Trial Balance tool is disabled for this company''), e1)
           else
             (case parse_date (tb_date_from params) of
                Inl ex \<Rightarrow> (Inl ex, e1)
              | Inr from_opt \<Rightarrow>
                  (case parse_date (tb_date_to params) of
                     Inl ex \<Rightarrow> (Inl ex, e1)
                   | Inr to_opt \<Rightarrow>
                       (let date_to = (case to_opt of None \<Rightarrow> today e1 | Some d \<Rightarrow> d);
                            date_from = (case from_opt of
                                           None \<Rightarrow> Date (d_year date_to) 1 1 | Some d \<Rightarrow> d)
                        in
                          if \<not> date_le date_from date_to
                          then (Inl (UserError, ''date_from must be before date_to''), e1)
                          else
                            (let hierarchy =
                                   (case tb_hierarchy params of None \<Rightarrow> True | Some b \<Rightarrow> b);
                                 account_types =
                                   (case tb_account_types params of None \<Rightarrow> [] | Some ts \<Rightarrow> ts);
                                 include_zero =
                                   (case tb_include_zero params of None \<Rightarrow> False | Some b \<Rightarrow> b);
                                 result = get_trial_balance e1 company_id date_from date_to
                                            hierarchy account_types include_zero;
                                 execution_time = elapsed_ms e1;
                                 ok = \<lparr>ts_data = result, ts_company = c_name company,
                                       ts_date_from = iso_date date_from,
                                       ts_date_to = iso_date date_to,
                                       ts_account_count = length (tb_accounts result),
                                       ts_execution_time_ms = execution_time\<rparr>
                             in
                               if log_all_queries config
                               then (case log_execution e1 ''get_trial_balance'' company_id
                                            (TrialBalanceParams params)
                                            (Some (TrialBalanceResult (length (tb_accounts result))))
                                            None execution_time Executed of
                                       Inl ex \<Rightarrow> (Inl ex, e1)
                                     | Inr (logged, e2) \<Rightarrow> (Inr ok, e2))
                               else (Inr ok, e1)))))))"

text \<open>\<^verbatim>\<open>execute(self, params)\<close>, lines 38-140.\<close>

definition tb_execute :: "env \<Rightarrow> tb_params \<Rightarrow> exn + (tb_success envelope \<times> env)" where
  "tb_execute e params =
     (case tb_execute_try e params of
        (Inr ok, e') \<Rightarrow> Inr (Success ok, e')
      | (Inl ex, e') \<Rightarrow> except_block ''get_trial_balance'' e' (TrialBalanceParams params) ex)"

section \<open>The BIR compliance tool\<close>

text \<open>\<^verbatim>\<open>tools/bir_compliance.py\<close>: BIR form 2307.\<close>

text \<open>
  \<^verbatim>\<open>_get_atc(self, tax)\<close>, \<^verbatim>\<open>bir_compliance.py\<close> lines 285-302. The argument is
  \<^const>\<open>None\<close> for an empty recordset (\<^verbatim>\<open>if not tax\<close>).
\<close>

definition get_atc :: "tax option \<Rightarrow> string" where
  "get_atc tx =
     (case tx of
        None \<Rightarrow> ''WC010''
      | Some t \<Rightarrow>
          (let name = py_upper (or_empty (t_name t)) in
           if sublist ''PROFESSIONAL'' name \<or> sublist ''WC010'' name then ''WC010''
           else if sublist ''RENTAL'' name \<or> sublist ''WC020'' name then ''WC020''
           else if sublist ''SERVICE'' name \<or> sublist ''WC100'' name then ''WC100''
           else if sublist ''GOODS'' name \<or> sublist ''WC120'' name then ''WC120''
           else ''WC010''))"

text \<open>
  The specification's wording of the same classification: an ordered keyword table,
  read by a generic first-match classifier with a default.
\<close>

definition spec_atc_table :: "(string list \<times> string) list" where
  "spec_atc_table =
     [([''PROFESSIONAL'', ''WC010''], ''WC010''),
      ([''RENTAL'', ''WC020''], ''WC020''),
      ([''SERVICE'', ''WC100''], ''WC100''),
      ([''GOODS'', ''WC120''], ''WC120'')]"

fun spec_first_match :: "(string list \<times> string) list \<Rightarrow> string \<Rightarrow> string \<Rightarrow> string" where
  "spec_first_match [] dflt name = dflt"
| "spec_first_match ((kws, code) # rules) dflt name =
     (if list_ex (\<lambda>k. sublist k name) kws then code else spec_first_match rules dflt name)"

text \<open>
  \<^verbatim>\<open>_parse_quarter(self, period)\<close>, lines 165-197. Every exception raised in its
  \<^verbatim>\<open>try\<close> block (\<^const>\<open>None\<close> below) is replaced by the \<^verbatim>\<open>UserError\<close>.
\<close>

definition quarter_months :: "int \<Rightarrow> int \<times> int" where
  "quarter_months quarter =
     (if quarter = 1 then (1, 3) else if quarter = 2 then (4, 6)
      else if quarter = 3 then (7, 9) else (10, 12))"

definition parse_quarter_try :: "string \<Rightarrow> (date \<times> date) option" where
  "parse_quarter_try period =
     (case py_split ''-Q'' period of
        [year_str, quarter_str] \<Rightarrow>
          (case py_int year_str of
             None \<Rightarrow> None
           | Some year \<Rightarrow>
               (case py_int quarter_str of
                  None \<Rightarrow> None
                | Some quarter \<Rightarrow>
                    if quarter < 1 \<or> 4 < quarter then None
                    else
                      (let (start_month, end_month) = quarter_months quarter in
                       case mk_date year start_month 1 of
                         None \<Rightarrow> None
                       | Some date_from \<Rightarrow>
                           (case (if end_month = 12 then mk_date year 12 31
                                  else mk_date year end_month (monthrange_days year end_month)) of
                              None \<Rightarrow> None
                            | Some date_to \<Rightarrow> Some (date_from, date_to)))))
      | _ \<Rightarrow> None)"

definition parse_quarter :: "string \<Rightarrow> exn + (date \<times> date)" where
  "parse_quarter period =
     (case parse_quarter_try period of
        Some dates \<Rightarrow> Inr dates
      | None \<Rightarrow>
          Inl (UserError, ''Invalid period format: '' @ period @ ''. Use YYYY-QN (e.g., 2025-Q4)''))"

text \<open>
  The two filters of \<^verbatim>\<open>_get_withholding_data\<close> (lines 225-237) on a line of a bill:
  by the description of its tax, and by the name of its tax.
\<close>

definition is_withholding_description :: "move_line \<Rightarrow> bool" where
  "is_withholding_description l =
     (case l_tax_line_id l of
        None \<Rightarrow> False
      | Some t \<Rightarrow> truthy_str (t_description t)
                  \<and> sublist ''withholding'' (py_lower (or_empty (t_description t))))"

definition is_ewt_name :: "move_line \<Rightarrow> bool" where
  "is_ewt_name l =
     (case l_tax_line_id l of
        None \<Rightarrow> False
      | Some t \<Rightarrow> truthy_str (t_name t)
                  \<and> (sublist ''EWT'' (or_empty (t_name t)) \<or> sublist ''WC'' (or_empty (t_name t))))"

text \<open>The withholding lines of one bill, lines 225-237.\<close>

definition bill_wht_lines :: "move \<Rightarrow> move_line list" where
  "bill_wht_lines bill =
     (let wht_lines = filter is_withholding_description (m_line_ids bill) in
      if wht_lines = [] then filter is_ewt_name (m_line_ids bill) else wht_lines)"

text \<open>\<^verbatim>\<open>_format_address(self, partner)\<close>, lines 274-283.\<close>

definition format_address :: "partner option \<Rightarrow> string" where
  "format_address pt =
     (case pt of
        None \<Rightarrow> []
      | Some p \<Rightarrow>
          take 100 (py_join '', ''
            (filter (\<lambda>s. s \<noteq> [])
               [or_empty (p_street p), or_empty (p_street2 p), or_empty (p_city p),
                or_empty (p_state_name p), or_empty (p_zip p)])))"

record wht_record =
  vendor_tin :: string
  vendor_name :: string
  vendor_address :: string
  atc :: string
  tax_rate :: rat
  base_amount :: rat
  tax_amount :: rat
  bill_ref :: string
  bill_date :: "date option"

record wht_data =
  records :: "wht_record list"
  total_base :: rat
  total_tax :: rat

text \<open>Lines 239-263: the record of one withholding line of a bill.\<close>

definition wht_record_of :: "move \<Rightarrow> move_line \<Rightarrow> wht_record" where
  "wht_record_of bill wht_line =
     (let pt = m_partner bill;
          tx = l_tax_line_id wht_line;
          rate = (case tx of None \<Rightarrow> 0 | Some t \<Rightarrow> \<bar>t_amount t\<bar>);
          amount = \<bar>l_balance wht_line\<bar>;
          base = (if 0 < rate then (amount / rate) * 100 else 0)
      in \<lparr>vendor_tin = (case pt of None \<Rightarrow> [] | Some p \<Rightarrow> or_empty (p_vat p)),
          vendor_name = (case pt of None \<Rightarrow> [] | Some p \<Rightarrow> or_empty (p_name p)),
          vendor_address = format_address pt,
          atc = get_atc tx,
          tax_rate = rate,
          base_amount = base,
          tax_amount = amount,
          bill_ref = m_name bill,
          bill_date = m_invoice_date bill\<rparr>)"

text \<open>The search of lines 206-217: the posted vendor bills of the company in the range.\<close>

definition search_bills :: "env \<Rightarrow> int \<Rightarrow> date \<Rightarrow> date \<Rightarrow> int list option \<Rightarrow> move list" where
  "search_bills e company_id date_from date_to vendor_ids =
     filter (\<lambda>m. m_company_id m = company_id
                 \<and> m_move_type m = ''in_invoice''
                 \<and> m_state m = ''posted''
                 \<and> (case m_invoice_date m of
                       None \<Rightarrow> False
                     | Some d \<Rightarrow> date_le date_from d \<and> date_le d date_to)
                 \<and> (case vendor_ids of
                       None \<Rightarrow> True
                     | Some ids \<Rightarrow>
                         ids = [] \<or> (case m_partner m of
                                        None \<Rightarrow> False | Some p \<Rightarrow> p_id p \<in> set ids)))
       (moves e)"

text \<open>
  \<^verbatim>\<open>_get_withholding_data(self, company_id, date_from, date_to, vendor_ids=None)\<close>,
  lines 199-272. The totals are accumulated record by record, so they are the sums over
  the records.
\<close>

definition get_withholding_data ::
  "env \<Rightarrow> int \<Rightarrow> date \<Rightarrow> date \<Rightarrow> int list option \<Rightarrow> wht_data" where
  "get_withholding_data e company_id date_from date_to vendor_ids =
     (let bills = search_bills e company_id date_from date_to vendor_ids;
          recs = concat (map (\<lambda>bill. map (wht_record_of bill) (bill_wht_lines bill)) bills)
      in \<lparr>records = recs,
          total_base = sum_list (map base_amount recs),
          total_tax = sum_list (map tax_amount recs)\<rparr>)"

text \<open>
  One line of the DAT file, lines 315-334, for the record with sequence number
  \<^verbatim>\<open>seq\<close>.
\<close>

definition dat_line :: "string \<Rightarrow> nat \<Rightarrow> wht_record \<Rightarrow> string" where
  "dat_line returning_period seq record =
     (let tin = ljust 9 CHR '' '' (take 9 (remove_char CHR ''-'' (vendor_tin record)));
          base = remove_char CHR ''.'' (fmt_02f 14 (base_amount record));
          tx = remove_char CHR ''.'' (fmt_02f 14 (tax_amount record))
      in fmt_s 6 returning_period
         @ fmt_0d 10 (int seq)
         @ fmt_s 9 tin
         @ fmt_s 4 ''0000''
         @ fmt_s 50 (take 50 (vendor_name record))
         @ fmt_s 100 (take 100 (vendor_address record))
         @ fmt_s 5 (atc record)
         @ fmt_02f 5 (tax_rate record)
         @ fmt_s 14 base
         @ fmt_s 14 tx)"

definition CRLF :: string where
  "CRLF = [CHR 0x0D, CHR 0x0A]"

text \<open>\<^verbatim>\<open>company.vat or 'TIN'\<close>.\<close>

definition vat_or_TIN :: "company \<Rightarrow> string" where
  "vat_or_TIN c = (if truthy_str (c_vat c) then or_empty (c_vat c) else ''TIN'')"

text \<open>
  \<^verbatim>\<open>_generate_dat(self, data, period, company)\<close>, lines 304-340: the content and the
  file name. Unpacking the split period and \<^verbatim>\<open>int(quarter)\<close> can raise
  \<^verbatim>\<open>ValueError\<close>.
\<close>

definition generate_dat :: "wht_data \<Rightarrow> string \<Rightarrow> company \<Rightarrow> exn + (string \<times> string)" where
  "generate_dat data period c =
     (case py_split ''-Q'' period of
        [year_str, quarter_str] \<Rightarrow>
          (case py_int quarter_str of
             None \<Rightarrow> Inl (ValueError, ''invalid literal for int() with base 10: '' @ quarter_str)
           | Some quarter \<Rightarrow>
               (let quarter_end_month = quarter * 3;
                    returning_period = fmt_0d 2 quarter_end_month @ year_str;
                    lines = map (\<lambda>(seq, record). dat_line returning_period seq record)
                              (zip [1..<Suc (length (records data))] (records data))
                in Inr (py_join CRLF lines,
                        ''BIR2307_'' @ vat_or_TIN c @ ''_'' @ period @ ''.dat'')))
      | parts \<Rightarrow>
          Inl (ValueError,
            (if length parts < 2 then ''not enough values to unpack (expected 2, got 1)''
             else ''too many values to unpack (expected 2)'')))"

text \<open>
  The workbook of \<^verbatim>\<open>_generate_xlsx\<close> (lines 342-390) is kept as the cells written to
  the sheet, each with its row and column; the bytes of the file are \<^verbatim>\<open>xlsxwriter\<close>'s.
\<close>

datatype cell = CellText string | CellInt int | CellNumber rat | CellDate "date option"

datatype file_bytes = DatBytes string | Workbook "(nat \<times> nat \<times> cell) list"

definition xlsx_headers :: "string list" where
  "xlsx_headers =
     [''Seq'', ''Vendor TIN'', ''Vendor Name'', ''Address'', ''ATC'', ''Tax Rate'',
      ''Base Amount'', ''Tax Withheld'', ''Bill Reference'', ''Bill Date'']"

definition xlsx_row :: "nat \<Rightarrow> wht_record \<Rightarrow> (nat \<times> nat \<times> cell) list" where
  "xlsx_row row record =
     [(row, 0, CellInt (int row)),
      (row, 1, CellText (vendor_tin record)),
      (row, 2, CellText (vendor_name record)),
      (row, 3, CellText (vendor_address record)),
      (row, 4, CellText (atc record)),
      (row, 5, CellNumber (tax_rate record)),
      (row, 6, CellNumber (base_amount record)),
      (row, 7, CellNumber (tax_amount record)),
      (row, 8, CellText (bill_ref record)),
      (row, 9, CellDate (bill_date record))]"

definition generate_xlsx ::
  "env \<Rightarrow> wht_data \<Rightarrow> string \<Rightarrow> company \<Rightarrow> exn + (file_bytes \<times> string)" where
  "generate_xlsx e data period c =
     (if \<not> xlsxwriter_installed e
      then Inl (UserError, ''xlsxwriter library required for Excel export'')
      else
        (let total_row = length (records data) + 2 in
         Inr (Workbook
                (map (\<lambda>(col, header). (0, col, CellText header))
                   (zip [0..<length xlsx_headers] xlsx_headers)
                 @ concat (map (\<lambda>(row, record). xlsx_row row record)
                             (zip [1..<Suc (length (records data))] (records data)))
                 @ [(total_row, 5, CellText ''TOTALS:''),
                    (total_row, 6, CellNumber (total_base data)),
                    (total_row, 7, CellNumber (total_tax data))]),
              ''BIR2307_'' @ vat_or_TIN c @ ''_'' @ period @ ''.xlsx'')))"

text \<open>\<^verbatim>\<open>_generate_pdf\<close>, lines 392-396: the Excel file in its place.\<close>

definition generate_pdf ::
  "env \<Rightarrow> wht_data \<Rightarrow> string \<Rightarrow> company \<Rightarrow> exn + (file_bytes \<times> string)" where
  "generate_pdf e data period c = generate_xlsx e data period c"

text \<open>
  The data of the success envelope (lines 132-145). \<^verbatim>\<open>file_content\<close> is the base64
  text of the content; the model keeps the content itself.
\<close>

record bir_success =
  bs_file_content :: file_bytes
  bs_filename :: string
  bs_record_count :: nat
  bs_total_base :: rat
  bs_total_tax :: rat
  bs_company :: string
  bs_period :: string
  bs_output_format :: string
  bs_execution_time_ms :: int

text \<open>The \<^verbatim>\<open>try\<close> block of \<^verbatim>\<open>execute\<close>, lines 74-145.\<close>

definition bir_execute_try :: "env \<Rightarrow> bir_params \<Rightarrow> (exn + bir_success) \<times> env" where
  "bir_execute_try e params =
     (let company_id = or_int (b_company_id params) (env_company e) in
      case browse_company e company_id of
        None \<Rightarrow> (Inl (UserError, ''Company not found: '' @ str_int company_id), e)
      | Some company \<Rightarrow>
          (let (config, e1) = get_config e (Some company_id) in
           if \<not> enable_bir_tools config
           then (Inl (AccessError, ''BIR Compliance tools are disabled for this company''), e1)
           else if \<not> truthy_str (b_period params)
           then (Inl (UserError, ''period is required (YYYY-QN format, e.g., 2025-Q4)''), e1)
           else
             (let period = or_empty (b_period params) in
              case parse_quarter period of
                Inl ex \<Rightarrow> (Inl ex, e1)
              | Inr (date_from, date_to) \<Rightarrow>
                  (let vendor_ids = b_vendor_ids params;
                       output_format = py_lower (case b_output_format params of
                                                   None \<Rightarrow> ''dat'' | Some f \<Rightarrow> f)
                   in
                     if output_format \<notin> set [''dat'', ''xlsx'', ''pdf'']
                     then (Inl (UserError, ''Invalid output_format: '' @ output_format
                                   @ ''. Use dat, xlsx, or pdf''), e1)
                     else
                       (let data = get_withholding_data e1 company_id date_from date_to vendor_ids
                        in
                          case (if output_format = ''dat''
                                then map_sum id (\<lambda>(content, filename). (DatBytes content, filename))
                                       (generate_dat data period company)
                                else if output_format = ''xlsx''
                                then generate_xlsx e1 data period company
                                else generate_pdf e1 data period company) of
                            Inl ex \<Rightarrow> (Inl ex, e1)
                          | Inr (content, filename) \<Rightarrow>
                              (let execution_time = elapsed_ms e1 in
                               case log_execution e1 ''generate_bir_2307'' company_id
                                      (BirParams params)
                                      (Some (BirResult (length (records data))
                                               (total_base data) (total_tax data)))
                                      None execution_time Executed of
                                 Inl ex \<Rightarrow> (Inl ex, e1)
                               | Inr (logged, e2) \<Rightarrow>
                                   (Inr \<lparr>bs_file_content = content, bs_filename = filename,
                                         bs_record_count = length (records data),
                                         bs_total_base = total_base data,
                                         bs_total_tax = total_tax data,
                                         bs_company = c_name company, bs_period = period,
                                         bs_output_format = output_format,
                                         bs_execution_time_ms = execution_time\<rparr>, e2)))))))"

text \<open>\<^verbatim>\<open>execute(self, params)\<close>, lines 51-163.\<close>

definition bir_execute :: "env \<Rightarrow> bir_params \<Rightarrow> exn + (bir_success envelope \<times> env)" where
  "bir_execute e params =
     (case bir_execute_try e params of
        (Inr ok, e') \<Rightarrow> Inr (Success ok, e')
      | (Inl ex, e') \<Rightarrow> except_block ''generate_bir_2307'' e' (BirParams params) ex)"

section \<open>Notions used in the statements\<close>

subsection \<open>The double-entry conditions\<close>

text \<open>
  A proposed line is in order when exactly one of its debit and credit is strictly
  positive and the other is zero, the amounts read as \<^verbatim>\<open>float(line.get('debit', 0))\<close>;
  a list of lines is balanced when the totals differ by at most 0.01.
\<close>

definition one_sided :: "rat \<Rightarrow> rat \<Rightarrow> bool" where
  "one_sided debit credit = ((0 < debit \<and> credit = 0) \<or> (debit = 0 \<and> 0 < credit))"

definition line_ok :: "je_line_in \<Rightarrow> bool" where
  "line_ok l = one_sided (amount_or_0 (in_debit l)) (amount_or_0 (in_credit l))"

definition balanced :: "je_line_in list \<Rightarrow> bool" where
  "balanced ls =
     (\<bar>sum_list (map (\<lambda>l. amount_or_0 (in_debit l)) ls)
        - sum_list (map (\<lambda>l. amount_or_0 (in_credit l)) ls)\<bar> \<le> 1 / 100)"

subsection \<open>Periods\<close>

text \<open>
  The number that a string of decimal digits writes, and the error of
  \<^verbatim>\<open>_parse_quarter\<close> for a period.
\<close>

definition decimal :: "string \<Rightarrow> int" where
  "decimal ds = foldl (\<lambda>a c. 10 * a + digit_val c) 0 ds"

definition invalid_period :: "string \<Rightarrow> exn" where
  "invalid_period period =
     (UserError, ''Invalid period format: '' @ period @ ''. Use YYYY-QN (e.g., 2025-Q4)'')"

subsection \<open>Withholding lines\<close>

text \<open>
  The lines of a bill that the extraction keeps: those that pass the description test,
  and those that pass the name test when no line of the bill passes the description
  test.
\<close>

definition treated_as_withholding :: "move \<Rightarrow> move_line \<Rightarrow> bool" where
  "treated_as_withholding bill l =
     (is_withholding_description l
      \<or> (is_ewt_name l \<and> \<not> list_ex is_withholding_description (m_line_ids bill)))"

subsection \<open>Amount fields\<close>

text \<open>
  The specification's wording of an amount field of the fixed-width file: the amount
  times 100 as an integer, zero-padded to 14 characters.
\<close>

definition spec_amount_field :: "rat \<Rightarrow> string" where
  "spec_amount_field x = fmt_0d 14 (round_half_even (x * 100))"

subsection \<open>Failures at the boundary of a tool\<close>

text \<open>
  The audit record that the \<^verbatim>\<open>except\<close> block writes for an exception, and what it
  means that \<^verbatim>\<open>execute\<close> handled the outcome of its \<^verbatim>\<open>try\<close> block: a success is
  returned in its envelope with the store as it is; a failure is returned as the
  failure envelope, with the record appended to the log when the tool is registered.
\<close>

definition failure_record :: "finance_tool \<Rightarrow> env \<Rightarrow> tool_params \<Rightarrow> exn \<Rightarrow> execution" where
  "failure_record tool e params ex =
     \<lparr>ex_tool_id = tool_id tool,
      ex_company_id = or_int (params_company_id params) (env_company e),
      ex_user_id = env_user e,
      ex_parameters = (if params_empty params then None else Some params),
      ex_result = None,
      ex_error_message = Some (snd ex),
      ex_execution_time_ms = elapsed_ms e,
      ex_state = (if snd ex = [] then Executed else Failed)\<rparr>"

definition handled ::
  "string \<Rightarrow> tool_params \<Rightarrow> (exn + 'a) \<times> env \<Rightarrow> 'a envelope \<times> env \<Rightarrow> bool" where
  "handled tool_name params outcome returned =
     (case outcome of
        (Inr ok, e1) \<Rightarrow> returned = (Success ok, e1)
      | (Inl ex, e1) \<Rightarrow>
          fst returned = Failure (snd ex) (class_name (fst ex))
          \<and> snd returned =
              (case find (\<lambda>t. tool_technical_name t = tool_name) (tools e1) of
                 None \<Rightarrow> e1
               | Some tool \<Rightarrow>
                   e1\<lparr>executions := executions e1 @ [failure_record tool e1 params ex]\<rparr>))"

section \<open>Stores reached by tool calls\<close>

text \<open>
  The audit log is written by \<^const>\<open>log_execution\<close> only, called directly or by a
  tool. A store is reachable when it starts with an empty log and every later step is
  such a call, a call of a tool that returns, or a change that leaves the log alone.
\<close>

inductive reachable :: "env \<Rightarrow> bool" where
  init: "executions e = [] \<Longrightarrow> reachable e"
| logged: "reachable e \<Longrightarrow>
     log_execution e tool_name cid params res err t st = Inr (r, e') \<Longrightarrow> reachable e'"
| journal_entry: "reachable e \<Longrightarrow> je_execute e jp = Inr (jr, e') \<Longrightarrow> reachable e'"
| trial_balance: "reachable e \<Longrightarrow> tb_execute e tp = Inr (tr, e') \<Longrightarrow> reachable e'"
| bir_2307: "reachable e \<Longrightarrow> bir_execute e bp = Inr (br, e') \<Longrightarrow> reachable e'"
| other: "reachable e \<Longrightarrow> executions e' = executions e \<Longrightarrow> reachable e'"

text \<open>Every record of the log that carries an error message is in state failed.\<close>

definition audit_ok :: "execution list \<Rightarrow> bool" where
  "audit_ok xs = list_all (\<lambda>x. truthy_str (ex_error_message x) \<longrightarrow> ex_state x = Failed) xs"

section \<open>Example data\<close>

text \<open>
  A company with both lock dates, a configuration that enables the journal entry tool
  without mandatory approval and with the threshold 0, one journal, two accounts, the
  three tools registered, and a balanced entry of 100.
\<close>

definition demo_company :: company where
  "demo_company =
     \<lparr>c_id = 1, c_name = ''ACME'', c_vat = Some ''123-456-789'', c_currency = ''PHP'',
      fiscalyear_lock_date = Some (Date 2024 12 31),
      period_lock_date = Some (Date 2025 3 31)\<rparr>"

definition demo_config :: finance_config where
  "demo_config =
     \<lparr>cfg_company_id = 1, enable_trial_balance = True, enable_journal_entry = True,
      enable_month_end = False, enable_bir_tools = True, enable_aging_report = True,
      require_approval_je = False, max_je_amount = 0, log_all_queries = True\<rparr>"

definition demo_env :: env where
  "demo_env =
     \<lparr>companies = [demo_company],
      configs = [demo_config],
      journals = [\<lparr>j_id = 7, j_code = ''MISC'', j_name = ''Miscellaneous'', j_company_id = 1\<rparr>],
      accounts =
        [\<lparr>a_id = 10, a_code = ''1000'', a_name = ''Cash'', a_company_ids = [1],
          a_account_type = ''asset_cash'', a_internal_group = ''asset'', a_group = None\<rparr>,
         \<lparr>a_id = 20, a_code = ''4000'', a_name = ''Sales'', a_company_ids = [1],
          a_account_type = ''income'', a_internal_group = ''income'', a_group = None\<rparr>],
      partners = [],
      moves = [],
      tools =
        [\<lparr>tool_id = 1, tool_technical_name = ''get_trial_balance''\<rparr>,
         \<lparr>tool_id = 2, tool_technical_name = ''create_journal_entry''\<rparr>,
         \<lparr>tool_id = 3, tool_technical_name = ''generate_bir_2307''\<rparr>],
      executions = [],
      env_company = 1, env_user = 2, user_is_account_manager = False,
      elapsed_ms = 5, today = Date 2025 6 30, xlsxwriter_installed = True\<rparr>"

definition demo_line :: "string \<Rightarrow> rat option \<Rightarrow> rat option \<Rightarrow> je_line_in" where
  "demo_line code debit credit =
     \<lparr>in_account = Some (AccountCode code), in_debit = debit, in_credit = credit,
      in_name = None, in_label = None, in_partner = None, in_analytic = None\<rparr>"

definition demo_params :: je_params where
  "demo_params =
     \<lparr>jp_company_id = None, jp_journal_code = Some ''MISC'',
      jp_date = Some (DateStr ''2025-06-15''), jp_ref = Some ''Opening sale'',
      jp_lines = Some [demo_line ''1000'' (Some 100) None, demo_line ''4000'' None (Some 100)],
      jp_auto_post = Some True\<rparr>"

text \<open>
  The example store with a third account and two posted moves: a sale of 100, and 50
  moved into and out of the third account, whose balance is therefore zero.
\<close>

definition demo_posted_move :: "int \<Rightarrow> (int \<times> rat \<times> rat) list \<Rightarrow> move" where
  "demo_posted_move i ls =
     \<lparr>m_id = i, m_name = ''MISC/2025/'' @ str_int i, m_company_id = 1, m_journal_id = 7,
      m_date = Date 2025 5 10, m_ref = ''posted'', m_move_type = ''entry'',
      m_state = ''posted'', m_invoice_date = None, m_partner = None,
      m_line_ids = map (\<lambda>(a, d, c).
        \<lparr>l_account_id = a, l_name = ''/'', l_debit = d, l_credit = c, l_balance = d - c,
         l_date = Date 2025 5 10, l_company_id = 1, l_parent_state = ''posted'',
         l_partner_id = None, l_analytic_distribution = None, l_tax_line_id = None\<rparr>) ls\<rparr>"

definition demo_ledger :: env where
  "demo_ledger = demo_env\<lparr>
     accounts := accounts demo_env @
       [\<lparr>a_id = 30, a_code = ''1100.10'', a_name = ''Clearing'', a_company_ids = [1],
         a_account_type = ''asset_current'', a_internal_group = ''asset'', a_group = None\<rparr>],
     moves := [demo_posted_move 1 [(10, 100, 0), (20, 0, 100)],
               demo_posted_move 2 [(30, 50, 0), (30, 0, 50)]]\<rparr>"

text \<open>An entry of 100 against 90, and a line with a debit and a credit.\<close>

definition demo_unbalanced :: je_params where
  "demo_unbalanced =
     demo_params\<lparr>jp_lines := Some [demo_line ''1000'' (Some 100) None,
                                    demo_line ''4000'' None (Some 90)]\<rparr>"


text \<open>
  The example entry dated on the fiscal-year lock date and on the period lock date, and
  the example store with an account manager as the user.
\<close>

definition demo_hard_locked :: je_params where
  "demo_hard_locked = demo_params\<lparr>jp_date := Some (DateStr ''2024-12-31'')\<rparr>"

definition demo_soft_locked :: je_params where
  "demo_soft_locked = demo_params\<lparr>jp_date := Some (DateStr ''2025-03-31'')\<rparr>"

definition demo_manager_env :: env where
  "demo_manager_env = demo_env\<lparr>user_is_account_manager := True\<rparr>"

text \<open>
  Two posted vendor bills of November 2025: one with a line whose tax is described as a
  withholding tax and a line whose tax is only named \<^verbatim>\<open>EWT\<close>, one with the
  \<^verbatim>\<open>EWT\<close> line alone. The vendor's name has 80 characters.
\<close>

definition demo_tax_line :: "tax \<Rightarrow> rat \<Rightarrow> move_line" where
  "demo_tax_line t balance =
     \<lparr>l_account_id = 40, l_name = ''tax'', l_debit = 0, l_credit = - balance,
      l_balance = balance, l_date = Date 2025 11 5, l_company_id = 1,
      l_parent_state = ''posted'', l_partner_id = Some 9, l_analytic_distribution = None,
      l_tax_line_id = Some t\<rparr>"

definition demo_withholding_line :: move_line where
  "demo_withholding_line =
     demo_tax_line \<lparr>t_name = Some ''Professional fees 10%'',
                    t_description = Some ''Withholding Tax 10%'', t_amount = - 10\<rparr> (- 1000)"

definition demo_ewt_line :: move_line where
  "demo_ewt_line =
     demo_tax_line \<lparr>t_name = Some ''EWT 2% services'', t_description = None,
                    t_amount = - 2\<rparr> (- 200)"

definition demo_vendor :: partner where
  "demo_vendor =
     \<lparr>p_id = 9, p_ref = None, p_name = Some (replicate 80 CHR ''N''),
      p_vat = Some ''123-456'', p_street = Some ''1 Ayala Ave'', p_street2 = None,
      p_city = Some ''Makati'', p_state_name = None, p_zip = Some ''1226''\<rparr>"

definition demo_bill :: "int \<Rightarrow> string \<Rightarrow> move_line list \<Rightarrow> move" where
  "demo_bill i name ls =
     \<lparr>m_id = i, m_name = name, m_company_id = 1, m_journal_id = 8,
      m_date = Date 2025 11 5, m_ref = ''vendor bill'', m_move_type = ''in_invoice'',
      m_state = ''posted'', m_invoice_date = Some (Date 2025 11 5),
      m_partner = Some demo_vendor, m_line_ids = ls\<rparr>"

definition demo_bir_env :: env where
  "demo_bir_env =
     demo_env\<lparr>moves := [demo_bill 1 ''BILL/A'' [demo_withholding_line, demo_ewt_line],
                         demo_bill 2 ''BILL/B'' [demo_ewt_line]]\<rparr>"

text \<open>The record of the described line of the first example bill.\<close>

definition demo_wht_record :: wht_record where
  "demo_wht_record =
     wht_record_of (demo_bill 1 ''BILL/A'' [demo_withholding_line, demo_ewt_line])
       demo_withholding_line"

text \<open>
  The example store with an empty registry of tools, the example entry without its
  journal code, and the example entry with a date object as its date.
\<close>

definition demo_unregistered :: env where
  "demo_unregistered = demo_env\<lparr>tools := []\<rparr>"

definition demo_no_journal_code :: je_params where
  "demo_no_journal_code = demo_params\<lparr>jp_journal_code := None\<rparr>"

definition demo_date_object :: je_params where
  "demo_date_object = demo_params\<lparr>jp_date := Some (DateObj (Date 2025 6 15))\<rparr>"

section \<open>Theorems\<close>

subsection \<open>What the handler and the log leave alone\<close>

lemma get_config_moves: "moves (snd (get_config e c)) = moves e"
  by (simp add: get_config_def Let_def split: option.splits)

lemma log_execution_moves:
  "log_execution e tool_name cid params res err t st = Inr (r, e') \<Longrightarrow> moves e' = moves e"
  by (auto simp: log_execution_def Let_def split: option.splits if_splits)

lemma except_block_result:
  assumes "except_block tool_name e params ex = Inr (r, e')"
  shows "r = Failure (snd ex) (class_name (fst ex))" and "moves e' = moves e"
  using assms
  by (auto simp: except_block_def split: sum.splits prod.splits dest: log_execution_moves)

subsection \<open>C1: validation of the proposed lines\<close>

lemma build_move_line_Inr:
  assumes "build_move_line e cid i l = Inr v"
  shows "v_debit v = amount_or_0 (in_debit l)" and "v_credit v = amount_or_0 (in_credit l)"
    and "line_ok l"
  using assms
  by (auto simp: build_move_line_def Let_def line_ok_def one_sided_def
      split: if_splits option.splits)

lemma build_move_line_Inl:
  "build_move_line e cid i l = Inl ex \<Longrightarrow> fst ex = UserError"
  by (auto simp: build_move_line_def Let_def split: if_splits option.splits)

lemma build_move_line_not_ok:
  assumes "\<not> line_ok l"
  shows "\<exists>msg. build_move_line e cid i l = Inl (UserError, msg)"
proof (cases "build_move_line e cid i l")
  case (Inl ex)
  with build_move_line_Inl [of e cid i l ex] show ?thesis by (cases ex) auto
next
  case (Inr v)
  with build_move_line_Inr(3) [of e cid i l v] assms show ?thesis by simp
qed













subsection \<open>C2: approval gating\<close>

lemma approval_required_iff:
  "approval_required config amount =
     (require_approval_je config \<or> (0 < max_je_amount config \<and> max_je_amount config < amount))"
  by (simp add: approval_required_def Let_def)

lemma je_execute_success:
  assumes "je_execute s p = Inr (Success ok, s')"
  shows "je_execute_try s p = (Inr ok, s')"
proof (cases "je_execute_try s p")
  case (Pair res s1)
  with assms show ?thesis
    by (cases res) (auto simp: je_execute_def except_block_def split: sum.splits prod.splits)
qed

lemma je_execute_try_success:
  assumes "je_execute_try s p = (Inr ok, s')"
  shows "r_requires_approval ok = approval_required (je_config s p) (r_total_amount ok)
          \<and> (r_requires_approval ok \<longrightarrow> r_state ok = ''draft'')
          \<and> (r_state ok = ''posted'' \<longrightarrow> jp_auto_post p = Some True)"
proof -
  let ?cid = "or_int (jp_company_id p) (env_company s)"
  obtain config s0 where gc: "get_config s (Some ?cid) = (config, s0)"
    by (cases "get_config s (Some ?cid)")
  then have cfg: "je_config s p = config" by (simp add: je_config_def)
  have "r_requires_approval ok = approval_required config (r_total_amount ok)
          \<and> (r_requires_approval ok \<longrightarrow> r_state ok = ''draft'')
          \<and> (r_state ok = ''posted'' \<longrightarrow> jp_auto_post p = Some True)"
  proof (cases "browse_company s ?cid")
    case None
    with assms show ?thesis by (simp add: je_execute_try_def Let_def)
  next
    case (Some company)
    show ?thesis
    proof (cases "je_checks s0 p ?cid config")
      case (Inl ex)
      with assms Some gc show ?thesis by (simp add: je_execute_try_def Let_def)
    next
      case (Inr v)
      obtain journal d ref vs ap where v: "v = (journal, d, ref, vs, ap)" by (cases v) auto
      with Inr have "ap = (case jp_auto_post p of None \<Rightarrow> False | Some b \<Rightarrow> b)"
        by (auto simp: je_checks_def Let_def split: if_splits sum.splits option.splits)
      with assms Some gc Inr v show ?thesis
        by (auto simp: je_execute_try_def Let_def create_move_def action_post_def
            split: sum.splits prod.splits if_splits option.splits)
    qed
  qed
  with cfg show ?thesis by simp
qed

text \<open>
  What the code does guarantee: approval is required exactly when the flag is set or
  the total debit exceeds a positive threshold, and an entry that requires approval is
  left in draft whatever \<^verbatim>\<open>auto_post\<close> asked for.
\<close>

lemma approval_gating_holds:
  assumes "je_execute s p = Inr (Success ok, s')"
  shows "r_requires_approval ok
            = (require_approval_je (je_config s p)
               \<or> (0 < max_je_amount (je_config s p)
                   \<and> max_je_amount (je_config s p) < r_total_amount ok))"
    and "r_requires_approval ok \<longrightarrow> r_state ok = ''draft''"
  using je_execute_try_success [OF je_execute_success [OF assms]]
  by (auto simp: approval_required_iff)

text \<open>
  C2. The claim: approval is required whenever the per-company flag is set and whenever
  the total debit exceeds the threshold, a threshold of 0 meaning that approval is
  always required (so the help of \<^verbatim>\<open>max_je_amount\<close>: 0 = always require), and an
  entry that requires approval stays in draft. The code at the threshold 0: with the
  flag unset no amount requires approval, and the example entry of 100 with
  \<^verbatim>\<open>auto_post\<close> is posted without approval.
\<close>

theorem threshold_zero_not_always_approval:
  "approval_required (config\<lparr>require_approval_je := False, max_je_amount := 0\<rparr>) amount = False
   \<and> max_je_amount demo_config = 0
   \<and> (\<exists>ok s'. je_execute demo_env demo_params = Inr (Success ok, s')
         \<and> r_total_amount ok = 100 \<and> r_requires_approval ok = False
         \<and> r_state ok = ''posted'')"
proof -
  have "(case je_execute demo_env demo_params of
           Inr (Success ok, s') \<Rightarrow>
             r_total_amount ok = 100 \<and> r_requires_approval ok = False \<and> r_state ok = ''posted''
         | _ \<Rightarrow> False)"
    by code_simp
  then have "\<exists>ok s'. je_execute demo_env demo_params = Inr (Success ok, s')
         \<and> r_total_amount ok = 100 \<and> r_requires_approval ok = False
         \<and> r_state ok = ''posted''"
    by (auto split: sum.splits prod.splits envelope.splits)
  then show ?thesis by (simp add: approval_required_iff demo_config_def)
qed

subsection \<open>C3: locked periods\<close>

text \<open>
  C3, as claimed, fails on the kind of the failure: an entry dated on the fiscal-year
  lock date is refused with a \<^verbatim>\<open>UserError\<close>, the class of the invalid-argument
  failures, and the envelope's \<^verbatim>\<open>error_type\<close> is \<^verbatim>\<open>UserError\<close>, not the
  \<^verbatim>\<open>AccessError\<close> that the tool raises when it is disabled.
\<close>

theorem locked_period_error_is_user_error:
  "check_period_lock demo_env 1 (Date 2024 12 31)
     = Inl (UserError, ''Period is locked. Fiscal year lock date: 2024-12-31'')
   \<and> map_sum id fst (je_execute demo_env demo_hard_locked)
     = Inr (Failure ''Period is locked. Fiscal year lock date: 2024-12-31'' ''UserError'')
   \<and> class_name AccessError = ''AccessError''"
  by code_simp

lemma check_period_lock_hard:
  assumes "browse_company e cid = Some c" and "on_or_before d (fiscalyear_lock_date c)"
  shows "check_period_lock e cid d
           = Inl (UserError, ''Period is locked. Fiscal year lock date: ''
                    @ str_date_field (fiscalyear_lock_date c))"
  using assms by (simp add: check_period_lock_def)

lemma check_period_lock_soft:
  assumes "browse_company e cid = Some c" and "\<not> on_or_before d (fiscalyear_lock_date c)"
    and "on_or_before d (period_lock_date c)"
  shows "check_period_lock e cid d
           = (if user_is_account_manager e then Inr ()
              else Inl (UserError, ''Period is locked for non-advisers. Lock date: ''
                     @ str_date_field (period_lock_date c)))"
  using assms by (simp add: check_period_lock_def)

lemma get_config_fields:
  "companies (snd (get_config e c)) = companies e"
  "user_is_account_manager (snd (get_config e c)) = user_is_account_manager e"
  by (simp_all add: get_config_def Let_def split: option.splits)

lemma check_period_lock_get_config:
  "check_period_lock (snd (get_config e c)) cid d = check_period_lock e cid d"
  by (simp add: check_period_lock_def browse_company_def get_config_fields
        split: option.splits)

lemma check_period_lock_Inl:
  "check_period_lock e cid d = Inl ex \<Longrightarrow> \<exists>msg. ex = (UserError, msg)"
  by (auto simp: check_period_lock_def split: option.splits if_splits)

lemma je_checks_locked:
  assumes "parse_date (jp_date p) = Inr (Some d)" and "check_period_lock e cid d = Inl ex"
  shows "\<exists>ex'. je_checks e p cid config = Inl ex'
            \<and> (enable_journal_entry config \<longrightarrow> fst ex' = UserError)"
  using assms check_period_lock_Inl [OF assms(2)]
  by (auto simp: je_checks_def Let_def split: option.splits if_splits)

lemma je_execute_locked:
  assumes ex: "je_execute s p = Inr (r, s')"
    and d: "parse_date (jp_date p) = Inr (Some d)"
    and l: "check_period_lock s (or_int (jp_company_id p) (env_company s)) d = Inl lk"
  shows "moves s' = moves s"
    and "\<exists>msg kind. r = Failure msg kind
           \<and> (enable_journal_entry (je_config s p) \<longrightarrow> kind = ''UserError'')"
proof -
  let ?cid = "or_int (jp_company_id p) (env_company s)"
  obtain config s0 where gc: "get_config s (Some ?cid) = (config, s0)"
    by (cases "get_config s (Some ?cid)")
  then have cfg: "je_config s p = config" by (simp add: je_config_def)
  have m0: "moves s0 = moves s" using get_config_moves [of s "Some ?cid"] gc by simp
  have "check_period_lock s0 ?cid d = Inl lk"
    using check_period_lock_get_config [of s "Some ?cid" ?cid d] gc l by simp
  from je_checks_locked [OF d this, of config] obtain ex'
    where c: "je_checks s0 p ?cid config = Inl ex'"
      and k: "enable_journal_entry config \<longrightarrow> fst ex' = UserError"
    by blast
  from l obtain c0 where co: "browse_company s ?cid = Some c0"
    by (auto simp: check_period_lock_def split: option.splits)
  from co gc c have t: "je_execute_try s p = (Inl ex', s0)"
    by (simp add: je_execute_try_def Let_def)
  with ex have eb: "except_block ''create_journal_entry'' s0 (JournalEntryParams p) ex' = Inr (r, s')"
    by (simp add: je_execute_def)
  from except_block_result [OF eb] m0 k cfg
  show "moves s' = moves s"
    and "\<exists>msg kind. r = Failure msg kind
           \<and> (enable_journal_entry (je_config s p) \<longrightarrow> kind = ''UserError'')"
    by auto
qed

text \<open>
  C3, amended. An entry dated on or before the fiscal-year lock date of the company is
  refused with a \<^verbatim>\<open>UserError\<close> for every identity, the account managers included;
  an entry dated on or before the period lock date only is refused with a
  \<^verbatim>\<open>UserError\<close> unless the user is an account manager, for whom the lock check
  passes. A call with such a date returns a failure envelope (of type
  \<^verbatim>\<open>UserError\<close> when the tool is enabled) and stores no move.
\<close>

theorem locked_period_policy:
  "(browse_company e cid = Some c \<and> on_or_before d (fiscalyear_lock_date c)
      \<longrightarrow> check_period_lock e cid d
            = Inl (UserError, ''Period is locked. Fiscal year lock date: ''
                     @ str_date_field (fiscalyear_lock_date c)))
   \<and> (browse_company e cid = Some c \<and> \<not> on_or_before d (fiscalyear_lock_date c)
        \<and> on_or_before d (period_lock_date c)
      \<longrightarrow> check_period_lock e cid d
            = (if user_is_account_manager e then Inr ()
               else Inl (UserError, ''Period is locked for non-advisers. Lock date: ''
                      @ str_date_field (period_lock_date c))))
   \<and> (je_execute s p = Inr (r, s') \<and> parse_date (jp_date p) = Inr (Some d')
        \<and> browse_company s (or_int (jp_company_id p) (env_company s)) = Some c'
        \<and> (on_or_before d' (fiscalyear_lock_date c')
            \<or> (on_or_before d' (period_lock_date c') \<and> \<not> user_is_account_manager s))
      \<longrightarrow> moves s' = moves s
          \<and> (\<exists>msg kind. r = Failure msg kind
                \<and> (enable_journal_entry (je_config s p) \<longrightarrow> kind = ''UserError'')))"
proof (intro conjI impI)
  assume "browse_company e cid = Some c \<and> on_or_before d (fiscalyear_lock_date c)"
  then show "check_period_lock e cid d
            = Inl (UserError, ''Period is locked. Fiscal year lock date: ''
                     @ str_date_field (fiscalyear_lock_date c))"
    by (simp add: check_period_lock_hard)
next
  assume "browse_company e cid = Some c \<and> \<not> on_or_before d (fiscalyear_lock_date c)
        \<and> on_or_before d (period_lock_date c)"
  then show "check_period_lock e cid d
            = (if user_is_account_manager e then Inr ()
               else Inl (UserError, ''Period is locked for non-advisers. Lock date: ''
                      @ str_date_field (period_lock_date c)))"
    by (simp add: check_period_lock_soft)
next
  assume a: "je_execute s p = Inr (r, s') \<and> parse_date (jp_date p) = Inr (Some d')
        \<and> browse_company s (or_int (jp_company_id p) (env_company s)) = Some c'
        \<and> (on_or_before d' (fiscalyear_lock_date c')
            \<or> (on_or_before d' (period_lock_date c') \<and> \<not> user_is_account_manager s))"
  then have "\<exists>lk. check_period_lock s (or_int (jp_company_id p) (env_company s)) d' = Inl lk"
    by (auto simp: check_period_lock_def)
  then obtain lk where "check_period_lock s (or_int (jp_company_id p) (env_company s)) d' = Inl lk"
    by blast
  with a je_execute_locked [of s p r s' d' lk]
  show "moves s' = moves s"
    and "\<exists>msg kind. r = Failure msg kind
                \<and> (enable_journal_entry (je_config s p) \<longrightarrow> kind = ''UserError'')"
    by simp_all
qed

text \<open>
  On the example store: the hard lock holds against an account manager, the soft lock
  against another user only.
\<close>

lemma demo_lock_facts:
  "browse_company demo_env 1 = Some demo_company"
  "browse_company demo_manager_env 1 = Some demo_company"
  "on_or_before (Date 2024 12 31) (fiscalyear_lock_date demo_company)"
  "\<not> on_or_before (Date 2025 3 31) (fiscalyear_lock_date demo_company)"
  "on_or_before (Date 2025 3 31) (period_lock_date demo_company)"
  "user_is_account_manager demo_manager_env"
  "\<not> user_is_account_manager demo_env"
  by (simp_all add: browse_company_def demo_env_def demo_manager_env_def demo_company_def
        on_or_before_def date_le_def)

lemma demo_lock_strings:
  "str_date_field (fiscalyear_lock_date demo_company) = ''2024-12-31''"
  "str_date_field (period_lock_date demo_company) = ''2025-03-31''"
  by code_simp+

lemma demo_soft_run:
  "map_sum id fst (je_execute demo_env demo_soft_locked)
     = Inr (Failure ''Period is locked for non-advisers. Lock date: 2025-03-31'' ''UserError'')"
  "(case je_execute demo_manager_env demo_soft_locked of
      Inr (Success ok, s') \<Rightarrow> r_state ok = ''posted'' | _ \<Rightarrow> False)"
  "parse_date (jp_date demo_soft_locked) = Inr (Some (Date 2025 3 31))"
  by code_simp+

theorem locked_period_policy_witness:
  "check_period_lock demo_manager_env 1 (Date 2024 12 31)
     = Inl (UserError, ''Period is locked. Fiscal year lock date: 2024-12-31'')
   \<and> check_period_lock demo_env 1 (Date 2025 3 31)
     = Inl (UserError, ''Period is locked for non-advisers. Lock date: 2025-03-31'')
   \<and> check_period_lock demo_manager_env 1 (Date 2025 3 31) = Inr ()
   \<and> (\<exists>s'. je_execute demo_env demo_soft_locked
             = Inr (Failure ''Period is locked for non-advisers. Lock date: 2025-03-31''
                      ''UserError'', s')
           \<and> moves s' = [])"
proof (intro conjI)
  from locked_period_policy [of demo_manager_env 1 demo_company "Date 2024 12 31"]
  show "check_period_lock demo_manager_env 1 (Date 2024 12 31)
     = Inl (UserError, ''Period is locked. Fiscal year lock date: 2024-12-31'')"
    by (simp add: demo_lock_facts demo_lock_strings)
next
  from locked_period_policy [of demo_env 1 demo_company "Date 2025 3 31"]
  show "check_period_lock demo_env 1 (Date 2025 3 31)
     = Inl (UserError, ''Period is locked for non-advisers. Lock date: 2025-03-31'')"
    by (simp add: demo_lock_facts demo_lock_strings)
next
  from locked_period_policy [of demo_manager_env 1 demo_company "Date 2025 3 31"]
  show "check_period_lock demo_manager_env 1 (Date 2025 3 31) = Inr ()"
    by (simp add: demo_lock_facts)
next
  let ?msg = "''Period is locked for non-advisers. Lock date: 2025-03-31''"
  from demo_soft_run(1) obtain s'
    where run: "je_execute demo_env demo_soft_locked = Inr (Failure ?msg ''UserError'', s')"
    by (cases "je_execute demo_env demo_soft_locked") auto
  have cid: "or_int (jp_company_id demo_soft_locked) (env_company demo_env) = 1"
    by (simp add: demo_soft_locked_def demo_params_def demo_env_def or_int_def)
  from locked_period_policy
    [of _ _ _ _ demo_env demo_soft_locked "Failure ?msg ''UserError''" s' "Date 2025 3 31"
        demo_company]
    run cid demo_soft_run(3) demo_lock_facts
  have "moves s' = moves demo_env" by simp
  then have "moves s' = []" by (simp add: demo_env_def)
  with run show "\<exists>s'. je_execute demo_env demo_soft_locked = Inr (Failure ?msg ''UserError'', s')
           \<and> moves s' = []"
    by blast
qed

subsection \<open>C4: the fixed-width file\<close>

text \<open>
  The name and tax id fields are as the claim says: exactly 50 and exactly 9 characters,
  a longer name cut to its first 50 characters, a shorter tax id (its dashes removed)
  padded with spaces on the right.
\<close>

lemma fmt_s_length: "length (fmt_s w s) = max w (length s)"
  by (simp add: fmt_s_def ljust_def)

lemma dat_name_field_width: "length (fmt_s 50 (take 50 name)) = 50"
  by (simp add: fmt_s_length)

lemma dat_name_field_truncates:
  "50 \<le> length name \<Longrightarrow> fmt_s 50 (take 50 name) = take 50 name"
  by (simp add: fmt_s_def ljust_def)

lemma dat_tin_field_width:
  "length (fmt_s 9 (ljust 9 CHR '' '' (take 9 (remove_char CHR ''-'' tin)))) = 9"
  by (simp add: fmt_s_length ljust_def)

lemma dat_tin_field_padded:
  "fmt_s 9 (ljust 9 CHR '' '' (take 9 (remove_char CHR ''-'' tin)))
     = take 9 (remove_char CHR ''-'' tin)
       @ replicate (9 - length (remove_char CHR ''-'' tin)) CHR '' ''"
  by (simp add: fmt_s_def ljust_def min_def)

lemma digit_char_is_digit: "is_digit (digit_char n)"
  unfolding is_digit_def digit_char_def by (rule nth_mem) simp

lemma str_digits_are_digits: "list_all is_digit (str_digits n)"
proof (induction n rule: str_digits.induct)
  case (1 n)
  then show ?case by (subst str_digits.simps) (simp add: digit_char_is_digit)
qed

lemma str_digits_length: "n < 10 ^ Suc k \<Longrightarrow> length (str_digits n) \<le> Suc k"
proof (induction k arbitrary: n)
  case 0
  then show ?case by (subst str_digits.simps) simp
next
  case (Suc k)
  show ?case
  proof (cases "n < 10")
    case True
    then show ?thesis by (subst str_digits.simps) simp
  next
    case False
    from Suc.prems have "n div 10 < 10 ^ Suc k" by simp
    from Suc.IH [OF this] False show ?thesis by (subst str_digits.simps) simp
  qed
qed

lemma remove_point_digits: "list_all is_digit ds \<Longrightarrow> remove_char CHR ''.'' ds = ds"
  by (induction ds) (auto simp: remove_char_def is_digit_def)

text \<open>
  The amount fields of every record: for an amount of up to eleven digits before the
  point, the 14 characters are 13 digits followed by a space.
\<close>

lemma dat_amount_field_shape:
  assumes "0 \<le> x" and "round_half_even (x * 100) div 100 < 10 ^ 11"
  shows "\<exists>ds. fmt_s 14 (remove_char CHR ''.'' (fmt_02f 14 x)) = ds @ '' ''
             \<and> length ds = 13 \<and> list_all is_digit ds"
proof -
  let ?n = "round_half_even (x * 100)"
  let ?D = "str_digits (?n div 100)"
  let ?ab = "[digit_char (?n mod 100 div 10), digit_char (?n mod 10)]"
  have len: "length ?D \<le> 11"
    using str_digits_length [of "?n div 100" 10] assms(2) by simp
  have dig: "list_all is_digit (?D @ ?ab)"
    by (simp add: str_digits_are_digits digit_char_is_digit)
  from assms(1) have fx: "fixed2 x = ?D @ ''.'' @ ?ab" by (simp add: fixed2_def Let_def)
  from assms(1) len have "fmt_02f 14 x = replicate (11 - length ?D) CHR ''0'' @ ?D @ ''.'' @ ?ab"
    by (simp add: fmt_02f_def rjust_def fx)
  then have "remove_char CHR ''.'' (fmt_02f 14 x)
               = remove_char CHR ''.'' (replicate (11 - length ?D) CHR ''0'')
                 @ remove_char CHR ''.'' ?D @ remove_char CHR ''.'' ?ab"
    by (simp add: remove_char_def)
  also have "remove_char CHR ''.'' (replicate (11 - length ?D) CHR ''0'')
               = replicate (11 - length ?D) CHR ''0''"
    by (simp add: remove_char_def)
  also have "remove_char CHR ''.'' ?D = ?D"
    by (rule remove_point_digits) (simp add: str_digits_are_digits)
  also have "remove_char CHR ''.'' ?ab = ?ab"
    by (rule remove_point_digits) (simp add: digit_char_is_digit)
  finally have r: "remove_char CHR ''.'' (fmt_02f 14 x)
                     = replicate (11 - length ?D) CHR ''0'' @ ?D @ ?ab" .
  let ?ds = "replicate (11 - length ?D) CHR ''0'' @ ?D @ ?ab"
  from len have l13: "length ?ds = 13" by simp
  have z: "is_digit CHR ''0''" by (simp add: is_digit_def)
  from dig z have d13: "list_all is_digit ?ds" by (auto simp: list_all_iff)
  from l13 have "fmt_s 14 ?ds = ?ds @ '' ''"
    by (simp add: fmt_s_def ljust_def del: length_append length_replicate)
  with r l13 d13 show ?thesis by metis
qed

text \<open>
  C4. The claim: every field has its exact width, and the fields \<^verbatim>\<open>base_amount\<close> and
  \<^verbatim>\<open>tax_amount\<close> are 14 characters holding the amount times 100 as a zero-padded
  integer (so the comment of the source: 14 chars, right-aligned). The code on the first
  example record, with base 10000.00 and tax 1000.00: the fields are
  \<^verbatim>\<open>0000001000000\<close> and \<^verbatim>\<open>0000000100000\<close> followed by a space, 13 digits
  left-aligned, where the claim has \<^verbatim>\<open>00000001000000\<close> and
  \<^verbatim>\<open>00000000100000\<close>; the width 14 of \<^verbatim>\<open>:014.2f\<close> counts the decimal point
  that is then removed. The other fields of the line, and the CRLF between the lines of
  the file, are as claimed.
\<close>

theorem dat_amount_field_is_13_digits_and_a_space:
  "base_amount demo_wht_record = 10000 \<and> tax_amount demo_wht_record = 1000
   \<and> dat_line ''122025'' 1 demo_wht_record
     = ''122025'' @ ''0000000001'' @ ''123456   '' @ ''0000'' @ replicate 50 CHR ''N''
       @ fmt_s 100 ''1 Ayala Ave, Makati, 1226'' @ ''WC010'' @ ''10.00''
       @ ''0000001000000 '' @ ''0000000100000 ''
   \<and> spec_amount_field (base_amount demo_wht_record) = ''00000001000000''
   \<and> spec_amount_field (tax_amount demo_wht_record) = ''00000000100000''
   \<and> map_sum id fst (generate_dat (get_withholding_data demo_bir_env 1 (Date 2025 10 1)
                                     (Date 2025 12 31) None) ''2025-Q4'' demo_company)
     = Inr (dat_line ''122025'' 1 demo_wht_record @ CRLF
            @ dat_line ''122025'' 2
                (wht_record_of (demo_bill 2 ''BILL/B'' [demo_ewt_line]) demo_ewt_line))"
  by code_simp

subsection \<open>C5: the totals of the trial balance\<close>

lemma tb_loop_rows:
  "fst (tb_loop f h iz accs (rows, tot)) =
     rows @ map (\<lambda>a. make_row a (case f (a_id a) of None \<Rightarrow> zero_amounts | Some x \<Rightarrow> x) h)
              (filter (\<lambda>a. iz \<or> am_balance (case f (a_id a) of
                                               None \<Rightarrow> zero_amounts | Some x \<Rightarrow> x) \<noteq> 0) accs)"
  by (induction accs arbitrary: rows tot) (auto simp: Let_def)

lemma tb_loop_totals:
  assumes "am_debit tot = sum_list (map row_debit rows)"
    and "am_credit tot = sum_list (map row_credit rows)"
    and "am_balance tot = sum_list (map row_balance rows)"
  shows "am_debit (snd (tb_loop f h iz accs (rows, tot)))
           = sum_list (map row_debit (fst (tb_loop f h iz accs (rows, tot))))
       \<and> am_credit (snd (tb_loop f h iz accs (rows, tot)))
           = sum_list (map row_credit (fst (tb_loop f h iz accs (rows, tot))))
       \<and> am_balance (snd (tb_loop f h iz accs (rows, tot)))
           = sum_list (map row_balance (fst (tb_loop f h iz accs (rows, tot))))"
  using assms
proof (induction accs arbitrary: rows tot)
  case Nil
  then show ?case by simp
next
  case (Cons a accs)
  let ?amts = "case f (a_id a) of None \<Rightarrow> zero_amounts | Some x \<Rightarrow> x"
  show ?case
  proof (cases "\<not> iz \<and> am_balance ?amts = 0")
    case True
    then have step: "tb_loop f h iz (a # accs) (rows, tot) = tb_loop f h iz accs (rows, tot)"
      by (simp add: Let_def)
    show ?thesis unfolding step by (rule Cons.IH [OF Cons.prems])
  next
    case False
    let ?rows = "rows @ [make_row a ?amts h]"
    let ?tot = "\<lparr>am_debit = am_debit tot + am_debit ?amts,
                 am_credit = am_credit tot + am_credit ?amts,
                 am_balance = am_balance tot + am_balance ?amts\<rparr>"
    have "am_debit ?tot = sum_list (map row_debit ?rows)"
      and "am_credit ?tot = sum_list (map row_credit ?rows)"
      and "am_balance ?tot = sum_list (map row_balance ?rows)"
      using Cons.prems by (simp_all add: make_row_def)
    note ih = Cons.IH [OF this]
    from False
    have step: "tb_loop f h iz (a # accs) (rows, tot) = tb_loop f h iz accs (?rows, ?tot)"
      by (auto simp: Let_def)
    show ?thesis unfolding step by (rule ih)
  qed
qed

text \<open>
  C5. The totals of a trial balance are the column-wise sums over the rows it returns,
  and these rows are the rows of the selected accounts (of the company, of the listed
  types) with the accounts of balance exactly zero dropped unless
  \<^verbatim>\<open>include_zero\<close>: the totals are computed after the filter, not over all accounts.
\<close>

theorem trial_balance_totals_of_returned_rows:
  "tb_totals (get_trial_balance e company_id date_from date_to hierarchy account_types
                include_zero) =
     \<lparr>am_debit = sum_list (map row_debit
         (tb_accounts (get_trial_balance e company_id date_from date_to hierarchy
                         account_types include_zero))),
      am_credit = sum_list (map row_credit
         (tb_accounts (get_trial_balance e company_id date_from date_to hierarchy
                         account_types include_zero))),
      am_balance = sum_list (map row_balance
         (tb_accounts (get_trial_balance e company_id date_from date_to hierarchy
                         account_types include_zero)))\<rparr>
   \<and> tb_accounts (get_trial_balance e company_id date_from date_to hierarchy account_types
                    include_zero) =
       map (\<lambda>a. make_row a (account_amounts e company_id date_from date_to a) hierarchy)
         (filter (\<lambda>a. include_zero
                       \<or> am_balance (account_amounts e company_id date_from date_to a) \<noteq> 0)
            (filter (\<lambda>a. company_id \<in> set (a_company_ids a)
                          \<and> (account_types = [] \<or> a_account_type a \<in> set account_types))
               (accounts e)))"
proof -
  let ?f = "totals_by_account e company_id date_from date_to"
  let ?accs = "filter (\<lambda>a. company_id \<in> set (a_company_ids a)
                          \<and> (account_types = [] \<or> a_account_type a \<in> set account_types))
                 (accounts e)"
  let ?loop = "tb_loop ?f hierarchy include_zero ?accs ([], zero_amounts)"
  have res:
    "tb_accounts (get_trial_balance e company_id date_from date_to hierarchy account_types
                    include_zero) = fst ?loop"
    "tb_totals (get_trial_balance e company_id date_from date_to hierarchy account_types
                  include_zero) = snd ?loop"
    by (simp_all add: get_trial_balance_def Let_def split: prod.splits)
  have sums: "am_debit (snd ?loop) = sum_list (map row_debit (fst ?loop))
       \<and> am_credit (snd ?loop) = sum_list (map row_credit (fst ?loop))
       \<and> am_balance (snd ?loop) = sum_list (map row_balance (fst ?loop))"
    by (rule tb_loop_totals) (simp_all add: zero_amounts_def)
  have rows: "fst ?loop =
       map (\<lambda>a. make_row a (account_amounts e company_id date_from date_to a) hierarchy)
         (filter (\<lambda>a. include_zero
                       \<or> am_balance (account_amounts e company_id date_from date_to a) \<noteq> 0)
            ?accs)"
    by (simp add: tb_loop_rows account_amounts_def)
  show ?thesis using sums rows by (simp add: res)
qed

text \<open>
  On the example ledger, without \<^verbatim>\<open>include_zero\<close>: the account with debit 50 and
  credit 50 is dropped, and the totals are 100 and 100 although the posted debits of the
  company add up to 150.
\<close>

lemma demo_ledger_rows:
  "map (\<lambda>r. (row_code r, row_debit r, row_credit r, row_balance r))
     (tb_accounts (get_trial_balance demo_ledger 1 (Date 2025 1 1) (Date 2025 12 31)
                     True [] False))
   = [(''1000'', 100, 0, 100), (''4000'', 0, 100, - 100)]"
  by code_simp

lemma demo_ledger_all_debits:
  "sum_list (map l_debit (posted_lines demo_ledger 1 (Date 2025 1 1) (Date 2025 12 31))) = 150"
  by code_simp

theorem trial_balance_totals_of_returned_rows_witness:
  "tb_totals (get_trial_balance demo_ledger 1 (Date 2025 1 1) (Date 2025 12 31) True [] False)
     = \<lparr>am_debit = 100, am_credit = 100, am_balance = 0\<rparr>
   \<and> map row_code (tb_accounts (get_trial_balance demo_ledger 1 (Date 2025 1 1)
                                   (Date 2025 12 31) True [] False))
     = [''1000'', ''4000'']
   \<and> sum_list (map l_debit (posted_lines demo_ledger 1 (Date 2025 1 1) (Date 2025 12 31)))
     = 150"
proof -
  let ?r = "get_trial_balance demo_ledger 1 (Date 2025 1 1) (Date 2025 12 31) True [] False"
  have "map (\<lambda>r. (row_code r, row_debit r, row_credit r, row_balance r)) (tb_accounts ?r)
          = [(''1000'', 100, 0, 100), (''4000'', 0, 100, - 100)]"
    by (rule demo_ledger_rows)
  then obtain r1 r2 where rows: "tb_accounts ?r = [r1, r2]"
    and r1: "row_code r1 = ''1000''" "row_debit r1 = 100" "row_credit r1 = 0"
      "row_balance r1 = 100"
    and r2: "row_code r2 = ''4000''" "row_debit r2 = 0" "row_credit r2 = 100"
      "row_balance r2 = - 100"
    by auto
  from trial_balance_totals_of_returned_rows
    [of demo_ledger 1 "Date 2025 1 1" "Date 2025 12 31" True "[]" False]
  have "tb_totals ?r = \<lparr>am_debit = 100, am_credit = 100, am_balance = 0\<rparr>"
    by (simp add: rows r1 r2)
  with rows r1 r2 demo_ledger_all_debits show ?thesis by simp
qed

subsection \<open>C6: failures at the boundary\<close>

text \<open>
  C6, as claimed, fails in two ways. When the tool is not in the registry,
  \<^verbatim>\<open>log_execution\<close> returns \<^verbatim>\<open>None\<close>: the failure envelope is returned and no
  audit record is written. And with a date object as the date, which \<^verbatim>\<open>_parse_date\<close>
  accepts, the parameters are not JSON: \<^verbatim>\<open>log_execution\<close> raises \<^verbatim>\<open>TypeError\<close>
  inside the \<^verbatim>\<open>try\<close> block (the move is created by then) and again inside the
  \<^verbatim>\<open>except\<close> block, and this second exception leaves \<^verbatim>\<open>execute\<close>.
\<close>

theorem failure_without_audit_record:
  "map_sum id (\<lambda>(r, s'). (r, executions s')) (je_execute demo_unregistered demo_no_journal_code)
     = Inr (Failure ''journal_code is required'' ''UserError'', [])
   \<and> je_execute demo_env demo_date_object
     = Inl (TypeError, ''Object of type date is not JSON serializable'')"
  by code_simp

lemma except_block_handled:
  assumes "params_empty params \<or> json_serializable params"
  shows "\<exists>ret. except_block tool_name e1 params ex = Inr ret
           \<and> handled tool_name params (Inl ex, e1) ret"
  using assms
  by (auto simp: except_block_def log_execution_def handled_def failure_record_def Let_def
        truthy_str_def split: option.splits)

lemma je_execute_handled:
  assumes "json_serializable (JournalEntryParams p)"
  shows "\<exists>ret. je_execute e p = Inr ret
           \<and> handled ''create_journal_entry'' (JournalEntryParams p) (je_execute_try e p) ret"
proof (cases "je_execute_try e p")
  case (Pair res e1)
  show ?thesis
  proof (cases res)
    case (Inl ex)
    with Pair assms except_block_handled [of "JournalEntryParams p" "''create_journal_entry''" e1 ex]
    show ?thesis by (simp add: je_execute_def)
  next
    case (Inr ok)
    with Pair show ?thesis by (simp add: je_execute_def handled_def)
  qed
qed

lemma tb_execute_handled:
  assumes "json_serializable (TrialBalanceParams p)"
  shows "\<exists>ret. tb_execute e p = Inr ret
           \<and> handled ''get_trial_balance'' (TrialBalanceParams p) (tb_execute_try e p) ret"
proof (cases "tb_execute_try e p")
  case (Pair res e1)
  show ?thesis
  proof (cases res)
    case (Inl ex)
    with Pair assms except_block_handled [of "TrialBalanceParams p" "''get_trial_balance''" e1 ex]
    show ?thesis by (simp add: tb_execute_def)
  next
    case (Inr ok)
    with Pair show ?thesis by (simp add: tb_execute_def handled_def)
  qed
qed

lemma bir_execute_handled:
  "\<exists>ret. bir_execute e p = Inr ret
           \<and> handled ''generate_bir_2307'' (BirParams p) (bir_execute_try e p) ret"
proof (cases "bir_execute_try e p")
  case (Pair res e1)
  show ?thesis
  proof (cases res)
    case (Inl ex)
    with Pair except_block_handled [of "BirParams p" "''generate_bir_2307''" e1 ex]
    show ?thesis by (simp add: bir_execute_def)
  next
    case (Inr ok)
    with Pair show ?thesis by (simp add: bir_execute_def handled_def)
  qed
qed

text \<open>
  C6, amended. For every call of a tool with parameters that are JSON (no date object),
  no exception leaves \<^verbatim>\<open>execute\<close>: the call returns the success envelope of the
  \<^verbatim>\<open>try\<close> block, or, for every failure raised inside it, the failure envelope with
  the message as \<^verbatim>\<open>error\<close> and the class name as \<^verbatim>\<open>error_type\<close>; in that case,
  when the tool is in the registry, one audit record is appended, which carries the
  message and the state failed (executed for an empty message) and no kind of error,
  and when the tool is not in the registry the log is left as it was.
\<close>

theorem failures_become_envelopes:
  "(json_serializable (JournalEntryParams jp)
      \<longrightarrow> (\<exists>ret. je_execute e jp = Inr ret
             \<and> handled ''create_journal_entry'' (JournalEntryParams jp)
                  (je_execute_try e jp) ret))
   \<and> (json_serializable (TrialBalanceParams tp)
      \<longrightarrow> (\<exists>ret. tb_execute e tp = Inr ret
             \<and> handled ''get_trial_balance'' (TrialBalanceParams tp)
                  (tb_execute_try e tp) ret))
   \<and> (\<exists>ret. bir_execute e bp = Inr ret
         \<and> handled ''generate_bir_2307'' (BirParams bp) (bir_execute_try e bp) ret)
   \<and> ex_error_message (failure_record tool e1 params ex) = Some (snd ex)
   \<and> ex_state (failure_record tool e1 params ex) = (if snd ex = [] then Executed else Failed)"
  by (intro conjI impI je_execute_handled tb_execute_handled bir_execute_handled)
    (simp_all add: failure_record_def)

text \<open>
  The unbalanced example entry: the \<^verbatim>\<open>ValidationError\<close> becomes the envelope, and
  the log receives one record for the tool, with the message, in state failed.
\<close>

lemma demo_unbalanced_try:
  "je_execute_try demo_env demo_unbalanced
     = (Inl (ValidationError,
          ''Journal entry is not balanced. Total debit: 100.00, Total credit: 90.00, Difference: 10.00''),
        demo_env)"
  "json_serializable (JournalEntryParams demo_unbalanced)"
  "find (\<lambda>t. tool_technical_name t = ''create_journal_entry'') (tools demo_env)
     = Some \<lparr>tool_id = 2, tool_technical_name = ''create_journal_entry''\<rparr>"
  by code_simp+

theorem failures_become_envelopes_witness:
  "\<exists>r s'. je_execute demo_env demo_unbalanced = Inr (r, s')
     \<and> r = Failure ''Journal entry is not balanced. Total debit: 100.00, Total credit: 90.00, Difference: 10.00''
              ''ValidationError''
     \<and> map (\<lambda>x. (ex_tool_id x, ex_error_message x, ex_state x)) (executions s')
         = [(2, Some ''Journal entry is not balanced. Total debit: 100.00, Total credit: 90.00, Difference: 10.00'',
             Failed)]"
proof -
  let ?msg = "''Journal entry is not balanced. Total debit: 100.00, Total credit: 90.00, Difference: 10.00''"
  let ?tool = "\<lparr>tool_id = 2, tool_technical_name = ''create_journal_entry''\<rparr>"
  note inst = failures_become_envelopes
    [of demo_unbalanced demo_env _ _ ?tool demo_env "JournalEntryParams demo_unbalanced"
        "(ValidationError, ?msg)"]
  from inst demo_unbalanced_try(2) obtain ret
    where ret: "je_execute demo_env demo_unbalanced = Inr ret"
      and h: "handled ''create_journal_entry'' (JournalEntryParams demo_unbalanced)
                (je_execute_try demo_env demo_unbalanced) ret"
    by blast
  obtain r s' where rs: "ret = (r, s')" by (cases ret)
  from h rs demo_unbalanced_try(1,3)
  have r: "r = Failure ?msg ''ValidationError''"
    and s': "executions s' = executions demo_env
               @ [failure_record ?tool demo_env (JournalEntryParams demo_unbalanced)
                    (ValidationError, ?msg)]"
    by (simp_all add: handled_def)
  from inst have "ex_error_message (failure_record ?tool demo_env
                     (JournalEntryParams demo_unbalanced) (ValidationError, ?msg)) = Some ?msg"
    and "ex_state (failure_record ?tool demo_env
                     (JournalEntryParams demo_unbalanced) (ValidationError, ?msg)) = Failed"
    by simp_all
  moreover have "ex_tool_id (failure_record ?tool demo_env
                     (JournalEntryParams demo_unbalanced) (ValidationError, ?msg)) = 2"
    by (simp add: failure_record_def)
  moreover have "executions demo_env = []" by (simp add: demo_env_def)
  ultimately show ?thesis using ret rs r s' by simp
qed

subsection \<open>C7: quarters\<close>

lemma is_digit_not_special:
  assumes "is_digit c"
  shows "c \<noteq> CHR ''-''" and "c \<noteq> CHR ''+''" and "\<not> is_space c"
  using assms by (auto simp: is_digit_def is_space_def)

lemma split_from_digits:
  assumes "list_all is_digit ys"
  shows "split_from ''-Q'' acc (ys @ ''-Q'' @ rest) = (rev acc @ ys) # split_from ''-Q'' [] rest"
  using assms
proof (induction ys arbitrary: acc)
  case Nil
  then show ?case by simp
next
  case (Cons c ys)
  then have "c \<noteq> CHR ''-''" by (simp add: is_digit_not_special)
  with Cons show ?case by simp
qed

lemma py_split_period:
  assumes "list_all is_digit ys"
  shows "py_split ''-Q'' (ys @ ''-Q'' @ [qc]) = [ys, [qc]]"
  using split_from_digits [OF assms, of "[]" "[qc]"] by (simp add: py_split_def)

lemma int_digits_decimal:
  assumes "list_all is_digit ds"
  shows "int_digits acc ds = Some (foldl (\<lambda>a c. 10 * a + digit_val c) acc ds)"
  using assms by (induction ds arbitrary: acc) simp_all

lemma py_strip_digits:
  assumes "list_all is_digit ds"
  shows "py_strip ds = ds"
proof (cases ds rule: rev_cases)
  case Nil
  then show ?thesis by (simp add: py_strip_def)
next
  case (snoc bs b)
  with assms have b: "\<not> is_space b" by (simp add: is_digit_not_special)
  from assms have "ds = [] \<or> \<not> is_space (hd ds)"
    by (cases ds) (simp_all add: is_digit_not_special)
  then have "dropWhile is_space ds = ds" by (cases ds) auto
  with snoc b show ?thesis by (simp add: py_strip_def)
qed

lemma py_int_digits:
  assumes "list_all is_digit ds" and "ds \<noteq> []"
  shows "py_int ds = Some (decimal ds)"
proof -
  from assms obtain c cs where ds: "ds = c # cs" by (cases ds) auto
  with assms have c: "is_digit c" by simp
  have "py_int ds = (case ds of [] \<Rightarrow> None
                     | c # cs \<Rightarrow>
                         if c = CHR ''-'' then map_option uminus (int_unsigned cs)
                         else if c = CHR ''+'' then int_unsigned cs
                         else int_unsigned (c # cs))"
    by (simp add: py_int_def py_strip_digits [OF assms(1)])
  with ds c have "py_int ds = int_digits 0 ds"
    by (simp add: is_digit_not_special int_unsigned_def)
  with int_digits_decimal [OF assms(1), of 0] show ?thesis by (simp add: decimal_def)
qed

lemma quarter_digit:
  assumes "q \<in> {1, 2, 3, 4}"
  shows "is_digit (digit_char q)" and "py_int [digit_char q] = Some q"
proof -
  have "is_digit (digit_char 1) \<and> py_int [digit_char 1] = Some 1"
    "is_digit (digit_char 2) \<and> py_int [digit_char 2] = Some 2"
    "is_digit (digit_char 3) \<and> py_int [digit_char 3] = Some 3"
    "is_digit (digit_char 4) \<and> py_int [digit_char 4] = Some 4"
    by code_simp+
  with assms show "is_digit (digit_char q)" and "py_int [digit_char q] = Some q" by auto
qed

lemma quarter_dates:
  assumes "1 \<le> y" and "y \<le> 9999" and "q \<in> {1, 2, 3, 4}"
  shows "(let (start_month, end_month) = quarter_months q in
          case mk_date y start_month 1 of
            None \<Rightarrow> None
          | Some date_from \<Rightarrow>
              (case (if end_month = 12 then mk_date y 12 31
                     else mk_date y end_month (monthrange_days y end_month)) of
                 None \<Rightarrow> None
               | Some date_to \<Rightarrow> Some (date_from, date_to)))
         = Some (Date y (3 * q - 2) 1, Date y (3 * q) (if q = 1 \<or> q = 4 then 31 else 30))"
  using assms by (auto simp: quarter_months_def mk_date_def monthrange_days_def)

text \<open>
  C7. A period written as a year from 0001 to 9999 (the years of a date), \<^verbatim>\<open>-Q\<close>
  and a quarter N from 1 to 4 parses to the first day of month 3N - 2 and the last
  calendar day of month 3N of that year (31 March, 30 June, 30 September, 31 December);
  a period whose quarter number is any other integer fails with the \<^verbatim>\<open>UserError\<close>
  (InvalidArgument) of an invalid period, which is the only failure of the parser.
\<close>

theorem parse_quarter_ranges:
  "(list_all is_digit ys \<and> ys \<noteq> [] \<and> 1 \<le> decimal ys \<and> decimal ys \<le> 9999
      \<and> q \<in> {1, 2, 3, 4}
    \<longrightarrow> parse_quarter (ys @ ''-Q'' @ [digit_char q])
          = Inr (Date (decimal ys) (3 * q - 2) 1,
                 Date (decimal ys) (3 * q) (if q = 1 \<or> q = 4 then 31 else 30)))
   \<and> (py_split ''-Q'' period = [year_str, quarter_str] \<and> py_int quarter_str = Some n
        \<and> (n < 1 \<or> 4 < n)
    \<longrightarrow> parse_quarter period = Inl (invalid_period period))
   \<and> (parse_quarter period = Inl ex \<longrightarrow> ex = invalid_period period)"
proof (intro conjI impI)
  assume a: "list_all is_digit ys \<and> ys \<noteq> [] \<and> 1 \<le> decimal ys \<and> decimal ys \<le> 9999
      \<and> q \<in> {1, 2, 3, 4}"
  then have sp: "py_split ''-Q'' (ys @ ''-Q'' @ [digit_char q]) = [ys, [digit_char q]]"
    using py_split_period [of ys "digit_char q"] by simp
  from a have yr: "py_int ys = Some (decimal ys)" by (simp add: py_int_digits)
  from a have qu: "py_int [digit_char q] = Some q" by (simp add: quarter_digit)
  from a have rng: "\<not> (q < 1 \<or> 4 < q)" by auto
  from a quarter_dates [of "decimal ys" q]
  have dates: "(let (start_month, end_month) = quarter_months q in
          case mk_date (decimal ys) start_month 1 of
            None \<Rightarrow> None
          | Some date_from \<Rightarrow>
              (case (if end_month = 12 then mk_date (decimal ys) 12 31
                     else mk_date (decimal ys) end_month
                            (monthrange_days (decimal ys) end_month)) of
                 None \<Rightarrow> None
               | Some date_to \<Rightarrow> Some (date_from, date_to)))
         = Some (Date (decimal ys) (3 * q - 2) 1,
                 Date (decimal ys) (3 * q) (if q = 1 \<or> q = 4 then 31 else 30))"
    by simp
  have "parse_quarter_try (ys @ ''-Q'' @ [digit_char q])
          = Some (Date (decimal ys) (3 * q - 2) 1,
                  Date (decimal ys) (3 * q) (if q = 1 \<or> q = 4 then 31 else 30))"
    unfolding parse_quarter_try_def sp using yr qu rng dates by simp
  then show "parse_quarter (ys @ ''-Q'' @ [digit_char q])
          = Inr (Date (decimal ys) (3 * q - 2) 1,
                 Date (decimal ys) (3 * q) (if q = 1 \<or> q = 4 then 31 else 30))"
    by (simp add: parse_quarter_def)
next
  assume "py_split ''-Q'' period = [year_str, quarter_str] \<and> py_int quarter_str = Some n
        \<and> (n < 1 \<or> 4 < n)"
  then have "parse_quarter_try period = None"
    by (auto simp: parse_quarter_try_def split: option.splits)
  then show "parse_quarter period = Inl (invalid_period period)"
    by (simp add: parse_quarter_def invalid_period_def)
next
  assume "parse_quarter period = Inl ex"
  then show "ex = invalid_period period"
    by (auto simp: parse_quarter_def invalid_period_def split: option.splits)
qed

text \<open>The three examples of the specification.\<close>

lemma demo_periods:
  "list_all is_digit ''2025''" "decimal ''2025'' = 2025"
  "digit_char 4 = CHR ''4''" "digit_char 1 = CHR ''1''"
  "py_split ''-Q'' ''2025-Q5'' = [''2025'', ''5'']" "py_int ''5'' = Some 5"
  by code_simp+

theorem parse_quarter_ranges_witness:
  "parse_quarter ''2025-Q4'' = Inr (Date 2025 10 1, Date 2025 12 31)
   \<and> parse_quarter ''2025-Q1'' = Inr (Date 2025 1 1, Date 2025 3 31)
   \<and> parse_quarter ''2025-Q5''
       = Inl (UserError, ''Invalid period format: 2025-Q5. Use YYYY-QN (e.g., 2025-Q4)'')"
proof (intro conjI)
  from parse_quarter_ranges [THEN conjunct1, of "''2025''" 4] demo_periods
  show "parse_quarter ''2025-Q4'' = Inr (Date 2025 10 1, Date 2025 12 31)" by simp
next
  from parse_quarter_ranges [THEN conjunct1, of "''2025''" 1] demo_periods
  show "parse_quarter ''2025-Q1'' = Inr (Date 2025 1 1, Date 2025 3 31)" by simp
next
  from parse_quarter_ranges [THEN conjunct2, THEN conjunct1, of "''2025-Q5''" "''2025''" "''5''" 5]
    demo_periods
  show "parse_quarter ''2025-Q5''
       = Inl (UserError, ''Invalid period format: 2025-Q5. Use YYYY-QN (e.g., 2025-Q4)'')"
    by (simp add: invalid_period_def)
qed

subsection \<open>C8: which lines are withholding lines\<close>

text \<open>
  C8, as claimed, fails where a bill has both kinds of line: the line whose tax is named
  \<^verbatim>\<open>EWT 2% services\<close> passes the name test, but on the bill that also has a line
  whose tax is described as a withholding tax it is not extracted; the bill yields one
  record.
\<close>

theorem ewt_line_beside_withholding_line_excluded:
  "bill_wht_lines (demo_bill 1 ''BILL/A'' [demo_withholding_line, demo_ewt_line])
     = [demo_withholding_line]
   \<and> is_ewt_name demo_ewt_line
   \<and> demo_ewt_line
       \<notin> set (bill_wht_lines (demo_bill 1 ''BILL/A'' [demo_withholding_line, demo_ewt_line]))
   \<and> map bill_ref (records (get_withholding_data demo_bir_env 1 (Date 2025 10 1)
                               (Date 2025 12 31) None))
     = [''BILL/A'', ''BILL/B'']"
  by code_simp

lemma bill_wht_lines_filter:
  "bill_wht_lines bill = filter (treated_as_withholding bill) (m_line_ids bill)"
proof (cases "list_ex is_withholding_description (m_line_ids bill)")
  case True
  then have some: "filter is_withholding_description (m_line_ids bill) \<noteq> []"
    by (simp add: list_ex_iff filter_empty_conv)
  have "filter (treated_as_withholding bill) (m_line_ids bill)
          = filter is_withholding_description (m_line_ids bill)"
    using True by (intro filter_cong) (auto simp: treated_as_withholding_def)
  with some show ?thesis by (simp add: bill_wht_lines_def Let_def)
next
  case False
  then have none: "filter is_withholding_description (m_line_ids bill) = []"
    by (simp add: list_ex_iff filter_empty_conv)
  have "filter (treated_as_withholding bill) (m_line_ids bill)
          = filter is_ewt_name (m_line_ids bill)"
    using False by (intro filter_cong) (auto simp: treated_as_withholding_def list_ex_iff)
  with none show ?thesis by (simp add: bill_wht_lines_def Let_def)
qed

lemma is_withholding_description_iff:
  "is_withholding_description l
     = (\<exists>t d. l_tax_line_id l = Some t \<and> t_description t = Some d
              \<and> sublist ''withholding'' (py_lower d))"
  by (auto simp: is_withholding_description_def truthy_str_def or_empty_def py_lower_def
      split: option.splits)

lemma is_ewt_name_iff:
  "is_ewt_name l
     = (\<exists>t n. l_tax_line_id l = Some t \<and> t_name t = Some n
              \<and> (sublist ''EWT'' n \<or> sublist ''WC'' n))"
  by (auto simp: is_ewt_name_def truthy_str_def or_empty_def split: option.splits)

text \<open>
  C8, amended. The records extracted are those of the lines of the posted vendor bills in
  the range that are treated as withholding lines, in order; a line of a bill is treated
  so if and only if the description of its tax contains \<^verbatim>\<open>withholding\<close>
  (case-insensitively), or the name of its tax contains \<^verbatim>\<open>EWT\<close> or \<^verbatim>\<open>WC\<close> and
  no line of the same bill passes the description test: the name test is the fallback
  of the bill, not of the line.
\<close>

theorem withholding_line_selection:
  "records (get_withholding_data e company_id date_from date_to vendor_ids)
     = concat (map (\<lambda>bill. map (wht_record_of bill)
                             (filter (treated_as_withholding bill) (m_line_ids bill)))
                 (search_bills e company_id date_from date_to vendor_ids))
   \<and> treated_as_withholding bill l
     = ((\<exists>t d. l_tax_line_id l = Some t \<and> t_description t = Some d
               \<and> sublist ''withholding'' (py_lower d))
        \<or> ((\<exists>t n. l_tax_line_id l = Some t \<and> t_name t = Some n
                 \<and> (sublist ''EWT'' n \<or> sublist ''WC'' n))
            \<and> \<not> (\<exists>l' \<in> set (m_line_ids bill). is_withholding_description l')))"
proof
  show "records (get_withholding_data e company_id date_from date_to vendor_ids)
     = concat (map (\<lambda>bill. map (wht_record_of bill)
                             (filter (treated_as_withholding bill) (m_line_ids bill)))
                 (search_bills e company_id date_from date_to vendor_ids))"
    by (simp add: get_withholding_data_def Let_def bill_wht_lines_filter)
next
  have "treated_as_withholding bill l
     = (is_withholding_description l
        \<or> (is_ewt_name l
            \<and> \<not> (\<exists>l' \<in> set (m_line_ids bill). is_withholding_description l')))"
    by (simp add: treated_as_withholding_def list_ex_iff)
  then show "treated_as_withholding bill l
     = ((\<exists>t d. l_tax_line_id l = Some t \<and> t_description t = Some d
               \<and> sublist ''withholding'' (py_lower d))
        \<or> ((\<exists>t n. l_tax_line_id l = Some t \<and> t_name t = Some n
                 \<and> (sublist ''EWT'' n \<or> sublist ''WC'' n))
            \<and> \<not> (\<exists>l' \<in> set (m_line_ids bill). is_withholding_description l')))"
    unfolding is_withholding_description_iff [of l] is_ewt_name_iff [of l] .
qed

text \<open>
  The two example bills: the first yields the record of its described line only, the
  second the record of its \<^verbatim>\<open>EWT\<close> line.
\<close>

lemma demo_selection:
  "map (\<lambda>r. (bill_ref r, atc r, tax_rate r, base_amount r, tax_amount r))
     (concat (map (\<lambda>bill. map (wht_record_of bill)
                             (filter (treated_as_withholding bill) (m_line_ids bill)))
                 (search_bills demo_bir_env 1 (Date 2025 10 1) (Date 2025 12 31) None)))
   = [(''BILL/A'', ''WC010'', 10, 10000, 1000), (''BILL/B'', ''WC100'', 2, 10000, 200)]"
  by code_simp

theorem withholding_line_selection_witness:
  "map (\<lambda>r. (bill_ref r, atc r, tax_rate r, base_amount r, tax_amount r))
     (records (get_withholding_data demo_bir_env 1 (Date 2025 10 1) (Date 2025 12 31) None))
   = [(''BILL/A'', ''WC010'', 10, 10000, 1000), (''BILL/B'', ''WC100'', 2, 10000, 200)]
   \<and> treated_as_withholding (demo_bill 2 ''BILL/B'' [demo_ewt_line]) demo_ewt_line
   \<and> \<not> treated_as_withholding
          (demo_bill 1 ''BILL/A'' [demo_withholding_line, demo_ewt_line]) demo_ewt_line"
proof -
  have d: "\<not> is_withholding_description demo_ewt_line"
    "is_withholding_description demo_withholding_line"
    by code_simp+
  have n: "\<exists>t n. l_tax_line_id demo_ewt_line = Some t \<and> t_name t = Some n
                 \<and> (sublist ''EWT'' n \<or> sublist ''WC'' n)"
    by (simp add: demo_ewt_line_def demo_tax_line_def sublist_code)
  have nd: "\<not> (\<exists>t d. l_tax_line_id demo_ewt_line = Some t \<and> t_description t = Some d
               \<and> sublist ''withholding'' (py_lower d))"
    by (simp add: demo_ewt_line_def demo_tax_line_def)
  from withholding_line_selection
    [of demo_bir_env 1 "Date 2025 10 1" "Date 2025 12 31" None
        "demo_bill 2 ''BILL/B'' [demo_ewt_line]" demo_ewt_line] d n nd
  have b: "treated_as_withholding (demo_bill 2 ''BILL/B'' [demo_ewt_line]) demo_ewt_line"
    and recs: "records (get_withholding_data demo_bir_env 1 (Date 2025 10 1) (Date 2025 12 31) None)
     = concat (map (\<lambda>bill. map (wht_record_of bill)
                             (filter (treated_as_withholding bill) (m_line_ids bill)))
                 (search_bills demo_bir_env 1 (Date 2025 10 1) (Date 2025 12 31) None))"
    by (simp_all add: demo_bill_def)
  from withholding_line_selection
    [of demo_bir_env 1 "Date 2025 10 1" "Date 2025 12 31" None
        "demo_bill 1 ''BILL/A'' [demo_withholding_line, demo_ewt_line]" demo_ewt_line] d nd
  have a: "\<not> treated_as_withholding
          (demo_bill 1 ''BILL/A'' [demo_withholding_line, demo_ewt_line]) demo_ewt_line"
    by (simp add: demo_bill_def)
  from a b recs demo_selection show ?thesis by simp
qed

subsection \<open>C9: Alpha Tax Code\<close>

text \<open>
  C9. The Alpha Tax Code of a withholding record is the result of the ordered keyword
  table applied to the upper-cased name of the tax descriptor: PROFESSIONAL or WC010
  gives WC010, else RENTAL or WC020 gives WC020, else SERVICE or WC100 gives WC100,
  else GOODS or WC120 gives WC120, else the default WC010 (also the code of a missing
  descriptor).
\<close>

theorem get_atc_ordered_table:
  "get_atc (Some t) = spec_first_match spec_atc_table ''WC010'' (py_upper (or_empty (t_name t)))
   \<and> get_atc None = ''WC010''"
  by (simp add: get_atc_def spec_atc_table_def Let_def)

text \<open>The two examples of the specification: a rental tax and a name with no keyword.\<close>

theorem get_atc_ordered_table_witness:
  "get_atc (Some \<lparr>t_name = Some ''Rental Income Tax'', t_description = None, t_amount = 5\<rparr>) = ''WC020''
   \<and> get_atc (Some \<lparr>t_name = Some ''Misc Fee'', t_description = None, t_amount = 2\<rparr>) = ''WC010''"
proof -
  have up1: "py_upper ''Rental Income Tax'' = ''RENTAL INCOME TAX''"
    by (simp add: py_upper_def upper_char_def)
  have up2: "py_upper ''Misc Fee'' = ''MISC FEE''"
    by (simp add: py_upper_def upper_char_def)
  have r: "spec_first_match spec_atc_table ''WC010'' ''RENTAL INCOME TAX'' = ''WC020''"
    by (simp add: spec_atc_table_def sublist_code)
  have m: "spec_first_match spec_atc_table ''WC010'' ''MISC FEE'' = ''WC010''"
    by (simp add: spec_atc_table_def sublist_code)
  show ?thesis
    using get_atc_ordered_table [of "\<lparr>t_name = Some ''Rental Income Tax'', t_description = None, t_amount = 5\<rparr>"]
      get_atc_ordered_table [of "\<lparr>t_name = Some ''Misc Fee'', t_description = None, t_amount = 2\<rparr>"]
    by (simp add: or_empty_def up1 up2 r m)
qed

subsection \<open>C10: an error message forces the state failed\<close>

lemma log_execution_created:
  assumes "log_execution e tool_name cid params res err t st = Inr (Some created, e')"
  shows "ex_error_message created = err"
    and "ex_state created = (if truthy_str err then Failed else st)"
    and "executions e' = executions e @ [created]"
  using assms
  by (auto simp: log_execution_def Let_def split: option.splits if_splits)

lemma log_execution_none:
  "log_execution e tool_name cid params res err t st = Inr (None, e') \<Longrightarrow> e' = e"
  by (auto simp: log_execution_def Let_def split: option.splits if_splits)

lemma log_execution_audit:
  assumes "log_execution e tool_name cid params res err t st = Inr (r, e')"
    and "audit_ok (executions e)"
  shows "audit_ok (executions e')"
proof (cases r)
  case None
  with assms log_execution_none [of e tool_name cid params res err t st e']
  show ?thesis by simp
next
  case (Some created)
  with assms(1) log_execution_created [of e tool_name cid params res err t st created e']
  have "executions e' = executions e @ [created]"
    and "ex_error_message created = err"
    and "ex_state created = (if truthy_str err then Failed else st)"
    by simp_all
  with assms(2) show ?thesis by (simp add: audit_ok_def)
qed

lemma get_config_executions: "executions (snd (get_config e c)) = executions e"
  by (simp add: get_config_def Let_def split: option.splits)

lemma create_move_executions: "executions (snd (create_move e c j d r ls)) = executions e"
  by (simp add: create_move_def Let_def)

lemma action_post_executions: "executions (snd (action_post e mv)) = executions e"
  by (simp add: action_post_def Let_def)

lemma except_block_audit:
  assumes "except_block tool_name e params ex = Inr (r, e')" and "audit_ok (executions e)"
  shows "audit_ok (executions e')"
  using assms
  by (auto simp: except_block_def split: sum.splits prod.splits dest: log_execution_audit)

lemma je_execute_try_audit:
  assumes "je_execute_try e p = (r, e')" and "audit_ok (executions e)"
  shows "audit_ok (executions e')"
proof -
  let ?cid = "or_int (jp_company_id p) (env_company e)"
  obtain config e1 where gc: "get_config e (Some ?cid) = (config, e1)"
    by (cases "get_config e (Some ?cid)")
  have e1: "audit_ok (executions e1)"
    using get_config_executions [of e "Some ?cid"] gc assms(2) by simp
  show ?thesis
  proof (cases "browse_company e ?cid")
    case None
    with assms show ?thesis by (simp add: je_execute_try_def Let_def)
  next
    case (Some company)
    show ?thesis
    proof (cases "je_checks e1 p ?cid config")
      case (Inl ex)
      with assms Some gc e1 show ?thesis by (simp add: je_execute_try_def Let_def)
    next
      case (Inr v)
      obtain journal je_date ref move_lines auto_post0
        where v: "v = (journal, je_date, ref, move_lines, auto_post0)"
        by (cases v) auto
      obtain created e2
        where cm: "create_move e1 ?cid (j_id journal) je_date ref move_lines = (created, e2)"
        by (cases "create_move e1 ?cid (j_id journal) je_date ref move_lines")
      obtain posted e3 where ap: "action_post e2 created = (posted, e3)"
        by (cases "action_post e2 created")
      have e2: "audit_ok (executions e2)"
        using create_move_executions [of e1 ?cid "j_id journal" je_date ref move_lines] cm e1
        by simp
      have e3: "audit_ok (executions e3)"
        using action_post_executions [of e2 created] ap e2 by simp
      from assms(1) Some gc Inr v cm ap e2 e3 show ?thesis
        by (auto simp: je_execute_try_def Let_def split: sum.splits prod.splits if_splits
              dest: log_execution_audit)
    qed
  qed
qed

lemma je_execute_audit:
  assumes "je_execute e p = Inr (r, e')" and "audit_ok (executions e)"
  shows "audit_ok (executions e')"
proof (cases "je_execute_try e p")
  case (Pair res e1)
  with assms je_execute_try_audit [of e p res e1] show ?thesis
    by (auto simp: je_execute_def split: sum.splits dest: except_block_audit)
qed

lemma tb_execute_try_audit:
  assumes "tb_execute_try e p = (r, e')" and "audit_ok (executions e)"
  shows "audit_ok (executions e')"
proof -
  let ?cid = "or_int (tb_company_id p) (env_company e)"
  obtain config e1 where gc: "get_config e (Some ?cid) = (config, e1)"
    by (cases "get_config e (Some ?cid)")
  have e1: "audit_ok (executions e1)"
    using get_config_executions [of e "Some ?cid"] gc assms(2) by simp
  from assms gc e1 show ?thesis
    by (auto simp: tb_execute_try_def Let_def
          split: option.splits sum.splits prod.splits if_splits
          dest: log_execution_audit)
qed

lemma tb_execute_audit:
  assumes "tb_execute e p = Inr (r, e')" and "audit_ok (executions e)"
  shows "audit_ok (executions e')"
proof (cases "tb_execute_try e p")
  case (Pair res e1)
  with assms tb_execute_try_audit [of e p res e1] show ?thesis
    by (auto simp: tb_execute_def split: sum.splits dest: except_block_audit)
qed

lemma bir_execute_try_audit:
  assumes "bir_execute_try e p = (r, e')" and "audit_ok (executions e)"
  shows "audit_ok (executions e')"
proof -
  let ?cid = "or_int (b_company_id p) (env_company e)"
  obtain config e1 where gc: "get_config e (Some ?cid) = (config, e1)"
    by (cases "get_config e (Some ?cid)")
  have e1: "audit_ok (executions e1)"
    using get_config_executions [of e "Some ?cid"] gc assms(2) by simp
  from assms gc e1 show ?thesis
    by (auto simp: bir_execute_try_def Let_def
          split: option.splits sum.splits prod.splits if_splits
          dest: log_execution_audit)
qed

lemma bir_execute_audit:
  assumes "bir_execute e p = Inr (r, e')" and "audit_ok (executions e)"
  shows "audit_ok (executions e')"
proof (cases "bir_execute_try e p")
  case (Pair res e1)
  with assms bir_execute_try_audit [of e p res e1] show ?thesis
    by (auto simp: bir_execute_def split: sum.splits dest: except_block_audit)
qed

lemma reachable_audit_ok: "reachable e \<Longrightarrow> audit_ok (executions e)"
proof (induction rule: reachable.induct)
  case (init e)
  then show ?case by (simp add: audit_ok_def)
next
  case (logged e tool_name cid params res err t st r e')
  then show ?case by (blast intro: log_execution_audit)
next
  case (journal_entry e jp jr e')
  then show ?case by (blast intro: je_execute_audit)
next
  case (trial_balance e tp tr e')
  then show ?case by (blast intro: tb_execute_audit)
next
  case (bir_2307 e bp br e')
  then show ?case by (blast intro: bir_execute_audit)
next
  case (other e e')
  then show ?case by simp
qed

text \<open>
  C10. Every append to the execution log that carries a non-empty error message stores
  the record in state failed, whatever state the caller passed; so in every store
  reached by tool calls, no audit record with a (non-empty) error message is in state
  pending, approved, executed or rejected.
\<close>

theorem error_message_forces_failed:
  "(log_execution e tool_name cid params res (Some msg) t st = Inr (Some created, e')
      \<and> msg \<noteq> []
    \<longrightarrow> ex_state created = Failed \<and> ex_error_message created = Some msg
        \<and> executions e' = executions e @ [created])
   \<and> (reachable s \<and> x \<in> set (executions s) \<and> ex_error_message x = Some m \<and> m \<noteq> []
    \<longrightarrow> ex_state x = Failed)"
proof (intro conjI impI)
  assume a: "log_execution e tool_name cid params res (Some msg) t st = Inr (Some created, e')
               \<and> msg \<noteq> []"
  with log_execution_created [of e tool_name cid params res "Some msg" t st created e']
  show "ex_state created = Failed" and "ex_error_message created = Some msg"
    and "executions e' = executions e @ [created]"
    by (simp_all add: truthy_str_def)
next
  assume b: "reachable s \<and> x \<in> set (executions s) \<and> ex_error_message x = Some m \<and> m \<noteq> []"
  then have "audit_ok (executions s)" by (simp add: reachable_audit_ok)
  with b show "ex_state x = Failed"
    by (auto simp: audit_ok_def list_all_iff truthy_str_def)
qed

text \<open>
  A failure of the journal entry tool logged on the example store with the state
  pending: the record is stored as failed, and it is the log of a reachable store.
\<close>

theorem error_message_forces_failed_witness:
  "(case log_execution demo_env ''create_journal_entry'' 1 (JournalEntryParams demo_params)
           None (Some ''Period is locked'') 5 Pending of
      Inr (Some created, e') \<Rightarrow>
        ex_state created = Failed \<and> ex_error_message created = Some ''Period is locked''
        \<and> executions e' = [created] \<and> reachable e'
    | _ \<Rightarrow> False)"
proof -
  obtain created e' where eq:
    "log_execution demo_env ''create_journal_entry'' 1 (JournalEntryParams demo_params)
       None (Some ''Period is locked'') 5 Pending = Inr (Some created, e')"
    by (simp add: log_execution_def demo_env_def demo_params_def Let_def)
  have empty: "executions demo_env = []" by (simp add: demo_env_def)
  have r: "reachable e'" using reachable.logged [OF reachable.init [OF empty] eq] .
  note inst = error_message_forces_failed
    [of demo_env "''create_journal_entry''" 1 "JournalEntryParams demo_params" None
        "''Period is locked''" 5 Pending created e' e' created "''Period is locked''"]
  from inst eq empty
  have stored: "ex_error_message created = Some ''Period is locked''
        \<and> executions e' = [created]"
    by simp
  with inst r have "ex_state created = Failed" by simp
  with stored eq r show ?thesis by simp
qed

end
